theory Spec2Isabelle
  imports Complex_Main
begin

section \<open>Python values\<close>

text \<open>
  Exceptions of the Python original are values of \<open>exn\<close>; a computation that may
  raise returns \<open>exn + 'a\<close>, with \<open>Inl\<close> for the raised exception.
\<close>

datatype exn =
  IndexError | ValueError | TypeError | AttributeError | OverflowError | ZeroDivisionError

subsection \<open>Floats\<close>

text \<open>
  A Python \<open>float\<close> (and numpy's \<open>float64\<close>) is an IEEE binary64 number.
  \<open>Finite s m e\<close> is \<open>(-1)\<^sup>s \<sqdot> m \<sqdot> 2\<^sup>e\<close> in the format's own normal form:
  \<open>2\<^sup>5\<^sup>2 \<le> m < 2\<^sup>5\<^sup>3\<close> and \<open>-1074 \<le> e \<le> 971\<close>, or \<open>m < 2\<^sup>5\<^sup>2\<close> and \<open>e = -1074\<close>
  (subnormal numbers and the two zeros). Every operation below returns normal forms, so
  equal numbers are equal terms, the two zeros apart.
\<close>

datatype pyfloat = Finite (negative: bool) (mantissa: int) (exponent: int) | Infinite bool | NaN

fun bit_length :: "int \<Rightarrow> int" where
  "bit_length n = (if n \<le> 0 then 0 else 1 + bit_length (n div 2))"

declare bit_length.simps [simp del]

definition scale2 :: "int \<Rightarrow> int \<Rightarrow> int" where
  "scale2 n k = (if 0 \<le> k then n * 2 ^ nat k else n)"

text \<open>\<open>floor_log2 n d\<close> is the integer \<open>k\<close> with \<open>2\<^sup>k \<le> n / d < 2\<^sup>k\<^sup>+\<^sup>1\<close>, for positive \<open>n\<close>, \<open>d\<close>.\<close>

definition floor_log2 :: "int \<Rightarrow> int \<Rightarrow> int" where
  "floor_log2 n d =
     (let k = bit_length n - bit_length d
      in if scale2 n (- k) < scale2 d k then k - 1 else k)"

text \<open>The integer nearest to \<open>n / d\<close>, a tie going to the even one.\<close>

definition round_half_even :: "int \<Rightarrow> int \<Rightarrow> int" where
  "round_half_even n d =
     (let q = n div d; r = n mod d
      in if 2 * r < d then q else if d < 2 * r then q + 1 else if even q then q else q + 1)"

text \<open>
  Rounding to nearest, ties to even: the binary64 number nearest to \<open>n / d\<close>
  (\<open>0 \<le> n\<close>, \<open>0 < d\<close>) with the sign \<open>neg\<close>; overflow gives an infinity.
\<close>

definition round_ratio :: "bool \<Rightarrow> int \<Rightarrow> int \<Rightarrow> pyfloat" where
  "round_ratio neg n d =
     (if n = 0 then Finite neg 0 (- 1074)
      else let sh = max (floor_log2 n d) (- 1022) - 52;
               m = round_half_even (scale2 n (- sh)) (scale2 d sh)
           in if m = 2 ^ 53
              then (if 971 < sh + 1 then Infinite neg else Finite neg (2 ^ 52) (sh + 1))
              else (if 971 < sh then Infinite neg else Finite neg m sh))"

text \<open>\<open>float(i)\<close> of an integer that does not overflow, and the literal \<open>1e-9\<close>.\<close>

definition float_of_int :: "int \<Rightarrow> pyfloat" where
  "float_of_int i = round_ratio (i < 0) \<bar>i\<bar> 1"

definition float_1e_9 :: pyfloat where
  "float_1e_9 = round_ratio False 1 (10 ^ 9)"

text \<open>
  Comparison. A NaN compares false with everything; the zeros are equal. The same
  function compares a Python \<open>int\<close> with a float exactly, the integer \<open>i\<close> entering
  as \<open>Finite (i < 0) \<bar>i\<bar> 0\<close>.
\<close>

definition signed_mantissa :: "bool \<Rightarrow> int \<Rightarrow> int" where
  "signed_mantissa neg m = (if neg then - m else m)"

fun float_le :: "pyfloat \<Rightarrow> pyfloat \<Rightarrow> bool" where
  "float_le NaN y = False"
| "float_le x NaN = False"
| "float_le (Infinite s) y = (s \<or> y = Infinite False)"
| "float_le x (Infinite t) = (\<not> t)"
| "float_le (Finite s m e) (Finite t n f) =
     (scale2 (signed_mantissa s m) (e - f) \<le> scale2 (signed_mantissa t n) (f - e))"

definition float_eq :: "pyfloat \<Rightarrow> pyfloat \<Rightarrow> bool" where
  "float_eq x y = (float_le x y \<and> float_le y x)"

text \<open>
  Arithmetic: the exact result, rounded once. \<open>round_scaled neg n k\<close> is the binary64
  number nearest to \<open>n \<sqdot> 2\<^sup>k\<close>.
\<close>

definition round_scaled :: "bool \<Rightarrow> int \<Rightarrow> int \<Rightarrow> pyfloat" where
  "round_scaled neg n k = round_ratio neg (scale2 n k) (scale2 1 (- k))"

fun float_abs :: "pyfloat \<Rightarrow> pyfloat" where
  "float_abs (Finite s m e) = Finite False m e"
| "float_abs (Infinite s) = Infinite False"
| "float_abs NaN = NaN"

fun float_neg :: "pyfloat \<Rightarrow> pyfloat" where
  "float_neg (Finite s m e) = Finite (\<not> s) m e"
| "float_neg (Infinite s) = Infinite (\<not> s)"
| "float_neg NaN = NaN"

fun float_add :: "pyfloat \<Rightarrow> pyfloat \<Rightarrow> pyfloat" where
  "float_add NaN y = NaN"
| "float_add x NaN = NaN"
| "float_add (Infinite s) (Infinite t) = (if s = t then Infinite s else NaN)"
| "float_add (Infinite s) y = Infinite s"
| "float_add x (Infinite t) = Infinite t"
| "float_add (Finite s m e) (Finite t n f) =
     (let total = scale2 (signed_mantissa s m) (e - f) + scale2 (signed_mantissa t n) (f - e)
      in round_scaled (if total = 0 then s \<and> t else total < 0) \<bar>total\<bar> (min e f))"

definition float_sub :: "pyfloat \<Rightarrow> pyfloat \<Rightarrow> pyfloat" where
  "float_sub x y = float_add x (float_neg y)"

fun float_mul :: "pyfloat \<Rightarrow> pyfloat \<Rightarrow> pyfloat" where
  "float_mul NaN y = NaN"
| "float_mul x NaN = NaN"
| "float_mul (Infinite s) (Infinite t) = Infinite (s \<noteq> t)"
| "float_mul (Infinite s) (Finite t n f) = (if n = 0 then NaN else Infinite (s \<noteq> t))"
| "float_mul (Finite s m e) (Infinite t) = (if m = 0 then NaN else Infinite (s \<noteq> t))"
| "float_mul (Finite s m e) (Finite t n f) = round_scaled (s \<noteq> t) (m * n) (e + f)"

text \<open>
  Division as IEEE 754 and numpy's \<open>float64\<close> have it: a zero divisor gives an infinity
  or NaN.
\<close>

fun float_div :: "pyfloat \<Rightarrow> pyfloat \<Rightarrow> pyfloat" where
  "float_div NaN y = NaN"
| "float_div x NaN = NaN"
| "float_div (Infinite s) (Infinite t) = NaN"
| "float_div (Infinite s) (Finite t n f) = Infinite (s \<noteq> t)"
| "float_div (Finite s m e) (Infinite t) = Finite (s \<noteq> t) 0 (- 1074)"
| "float_div (Finite s m e) (Finite t n f) =
     (if n = 0 then (if m = 0 then NaN else Infinite (s \<noteq> t))
      else round_ratio (s \<noteq> t) (scale2 m (e - f)) (scale2 n (f - e)))"

text \<open>Division of two Python floats: a zero divisor raises.\<close>

definition py_float_div :: "pyfloat \<Rightarrow> pyfloat \<Rightarrow> exn + pyfloat" where
  "py_float_div x y =
     (case y of
        Finite t n f \<Rightarrow> if n = 0 then Inl ZeroDivisionError else Inr (float_div x y)
      | _ \<Rightarrow> Inr (float_div x y))"

text \<open>
  True division \<open>a / b\<close> of two Python integers: the correctly rounded quotient; a zero
  divisor raises, and so does a quotient too large for a float.
\<close>

definition int_truediv :: "int \<Rightarrow> int \<Rightarrow> exn + pyfloat" where
  "int_truediv a b =
     (if b = 0 then Inl ZeroDivisionError
      else case round_ratio ((a < 0) \<noteq> (b < 0)) \<bar>a\<bar> \<bar>b\<bar> of
             Infinite s \<Rightarrow> Inl OverflowError
           | q \<Rightarrow> Inr q)"

text \<open>\<open>int(x)\<close> of a float: truncation towards zero.\<close>

fun py_int :: "pyfloat \<Rightarrow> exn + int" where
  "py_int NaN = Inl ValueError"
| "py_int (Infinite s) = Inl OverflowError"
| "py_int (Finite s m e) =
     Inr (signed_mantissa s (if 0 \<le> e then m * 2 ^ nat e else m div 2 ^ nat (- e)))"

subsection \<open>Strings\<close>

text \<open>
  A \<open>str\<close> is a sequence of Unicode code points; \<open>lit\<close> gives the \<open>str\<close> of a
  literal written in ASCII.
\<close>

type_synonym str = "nat list"

definition lit :: "string \<Rightarrow> str" where
  "lit s = map of_char s"

text \<open>
  What the interpreter brings and the repository does not hold: the Unicode database of
  its version, which gives the decimal value of a digit (\<open>Py_UNICODE_TODECIMAL\<close>), the
  white space property (\<open>Py_UNICODE_ISSPACE\<close>) and the lower case of a string
  (\<open>str.lower\<close>, which looks at the context of a letter), and \<open>repr\<close> of a float, the
  shortest decimal string that reads back as the same float. They are parameters, the
  fields of a \<open>runtime\<close>; the first three are consulted outside ASCII only, where they
  depend on the version.
\<close>

record runtime =
  decimal_of :: "nat \<Rightarrow> nat option"
  is_white :: "nat \<Rightarrow> bool"
  lower_of :: "str \<Rightarrow> str"
  repr_of :: "pyfloat \<Rightarrow> string"

definition is_ascii :: "str \<Rightarrow> bool" where
  "is_ascii s = list_all (\<lambda>c. c < 128) s"

definition is_ascii_digit :: "nat \<Rightarrow> bool" where
  "is_ascii_digit c = (48 \<le> c \<and> c \<le> 57)"

text \<open>
  \<open>Py_UNICODE_TODECIMAL\<close>: the value of a decimal digit of any script, the class
  \<open>\d\<close> of a regular expression over \<open>str\<close>.
\<close>

definition to_decimal :: "runtime \<Rightarrow> nat \<Rightarrow> nat option" where
  "to_decimal rt c =
     (if c < 128 then (if is_ascii_digit c then Some (c - 48) else None) else decimal_of rt c)"

text \<open>
  \<open>Py_UNICODE_ISSPACE\<close>, the class \<open>\s\<close>: in ASCII the characters 9 to 13 and
  28 to 32.
\<close>

definition is_space :: "runtime \<Rightarrow> nat \<Rightarrow> bool" where
  "is_space rt c =
     (if c < 128 then (9 \<le> c \<and> c \<le> 13) \<or> (28 \<le> c \<and> c \<le> 32) else is_white rt c)"

text \<open>\<open>Py_ISSPACE\<close>, the white space of C: the characters 9 to 13 and the space.\<close>

definition Py_ISSPACE :: "nat \<Rightarrow> bool" where
  "Py_ISSPACE c = ((9 \<le> c \<and> c \<le> 13) \<or> c = 32)"

text \<open>\<open>s.lower()\<close>: on an ASCII string the letters \<open>A\<close> to \<open>Z\<close> become \<open>a\<close> to \<open>z\<close>.\<close>

definition ascii_lower :: "nat \<Rightarrow> nat" where
  "ascii_lower c = (if 65 \<le> c \<and> c \<le> 90 then c + 32 else c)"

definition lower :: "runtime \<Rightarrow> str \<Rightarrow> str" where
  "lower rt s = (if is_ascii s then map ascii_lower s else lower_of rt s)"

text \<open>\<open>s.replace(',', '')\<close>\<close>

definition remove_commas :: "str \<Rightarrow> str" where
  "remove_commas s = filter (\<lambda>c. c \<noteq> of_char CHR '','') s"

text \<open>\<open>sub in s\<close> for two strings.\<close>

fun starts_with :: "'a list \<Rightarrow> 'a list \<Rightarrow> bool" where
  "starts_with [] s = True"
| "starts_with (p # ps) [] = False"
| "starts_with (p # ps) (c # cs) = (p = c \<and> starts_with ps cs)"

fun contains :: "'a list \<Rightarrow> 'a list \<Rightarrow> bool" where
  "contains sub [] = (sub = [])"
| "contains sub (c # cs) = (starts_with sub (c # cs) \<or> contains sub cs)"

text \<open>
  The strings that formatting produces are ASCII; they are built as \<open>string\<close>s and
  turned into a \<open>str\<close> by \<open>lit\<close>. The decimal digits of a natural number, and
  \<open>str(i)\<close> of an integer:
\<close>

definition digit_char :: "nat \<Rightarrow> char" where
  "digit_char n = ''0123456789'' ! n"

fun dec_digits :: "nat \<Rightarrow> string" where
  "dec_digits n =
     (if n < 10 then [digit_char n]
      else dec_digits (n div 10) @ [digit_char (n mod 10)])"

declare dec_digits.simps [simp del]

definition str_of_int :: "int \<Rightarrow> string" where
  "str_of_int i = (if i < 0 then CHR ''-'' # dec_digits (nat (- i)) else dec_digits (nat i))"

text \<open>The digits of \<open>n\<close>, zero-padded on the left to at least \<open>w\<close> characters.\<close>

definition zero_pad :: "nat \<Rightarrow> nat \<Rightarrow> string" where
  "zero_pad w n = replicate (w - length (dec_digits n)) CHR ''0'' @ dec_digits n"

text \<open>The \<open>,\<close> option of the format mini-language: digits in groups of three.\<close>

fun grouped :: "nat \<Rightarrow> string" where
  "grouped n =
     (if n < 1000 then dec_digits n
      else grouped (n div 1000) @ CHR '','' # zero_pad 3 (n mod 1000))"

declare grouped.simps [simp del]

text \<open>\<open>f"{i:,}"\<close> for an integer \<open>i\<close>.\<close>

definition format_int_grouped :: "int \<Rightarrow> string" where
  "format_int_grouped i =
     (if i < 0 then CHR ''-'' # grouped (nat (- i)) else grouped (nat i))"

text \<open>
  \<open>f"{x:,.2f}"\<close> for a float \<open>x\<close>: the exact value, rounded half-even to hundredths,
  with the sign of \<open>x\<close> (also on a zero) and the integer part grouped.
\<close>

definition format_float_grouped_2f :: "pyfloat \<Rightarrow> string" where
  "format_float_grouped_2f x =
     (case x of
        NaN \<Rightarrow> ''nan''
      | Infinite s \<Rightarrow> (if s then ''-inf'' else ''inf'')
      | Finite s m e \<Rightarrow>
          (let c = nat (round_half_even (scale2 (100 * m) e) (scale2 1 (- e)))
           in (if s then ''-'' else '''') @ grouped (c div 100) @ CHR ''.'' # zero_pad 2 (c mod 100)))"

subsection \<open>\<open>float(s)\<close> of a string\<close>

text \<open>
  \<open>float\<close> first rewrites a string that is not ASCII: a character below 127 stays, white
  space becomes a space, a decimal digit of any script becomes its ASCII digit, and at
  the first character that is none of these the result ends with a question mark.
\<close>

fun transform_decimal_and_space :: "runtime \<Rightarrow> str \<Rightarrow> str" where
  "transform_decimal_and_space rt [] = []"
| "transform_decimal_and_space rt (c # cs) =
     (if c < 127 then c # transform_decimal_and_space rt cs
      else if is_space rt c then 32 # transform_decimal_and_space rt cs
      else case to_decimal rt c of
             Some d \<Rightarrow> (48 + d) # transform_decimal_and_space rt cs
           | None \<Rightarrow> [63])"

definition to_ascii :: "runtime \<Rightarrow> str \<Rightarrow> str" where
  "to_ascii rt s = (if is_ascii s then s else transform_decimal_and_space rt s)"

text \<open>Then the white space of C is dropped at both ends.\<close>

definition strip_c_space :: "str \<Rightarrow> str" where
  "strip_c_space s = rev (dropWhile Py_ISSPACE (rev (dropWhile Py_ISSPACE s)))"

text \<open>
  What is left follows the grammar of the language reference: an optional sign; then
  \<open>inf\<close>, \<open>infinity\<close> or \<open>nan\<close> in any case, or a decimal number with an optional
  exponent. Digits may be grouped with single underscores. Anything else raises
  \<open>ValueError\<close>. The value is the nearest binary64 number.
\<close>

fun digits_tail :: "str \<Rightarrow> str \<times> str" where
  "digits_tail [] = ([], [])"
| "digits_tail [c] = (if is_ascii_digit c then ([c], []) else ([], [c]))"
| "digits_tail (c # d # cs) =
     (if is_ascii_digit c then (case digits_tail (d # cs) of (ds, r) \<Rightarrow> (c # ds, r))
      else if c = of_char CHR ''_'' \<and> is_ascii_digit d
           then (case digits_tail cs of (ds, r) \<Rightarrow> (d # ds, r))
      else ([], c # d # cs))"

text \<open>\<open>digitpart ::= digit (["_"] digit)*\<close>: its digits and the rest of the input.\<close>

definition digitpart :: "str \<Rightarrow> (str \<times> str) option" where
  "digitpart s =
     (case s of
        [] \<Rightarrow> None
      | c # cs \<Rightarrow> if is_ascii_digit c then (case digits_tail cs of (ds, r) \<Rightarrow> Some (c # ds, r))
                 else None)"

definition digits_value :: "str \<Rightarrow> int" where
  "digits_value ds = foldl (\<lambda>a c. 10 * a + (int c - 48)) 0 ds"

text \<open>
  \<open>number ::= [digitpart] "." digitpart | digitpart ["."]\<close>: the integer written by
  all its digits, the count of digits after the point, and the rest of the input.
\<close>

definition parse_number :: "str \<Rightarrow> (int \<times> int \<times> str) option" where
  "parse_number s =
     (case digitpart s of
        Some (ip, r) \<Rightarrow>
          (case r of
             c # r' \<Rightarrow>
               if c = of_char CHR ''.'' then
                 (case digitpart r' of
                    Some (fp, r'') \<Rightarrow> Some (digits_value (ip @ fp), int (length fp), r'')
                  | None \<Rightarrow> Some (digits_value ip, 0, r'))
               else Some (digits_value ip, 0, r)
           | [] \<Rightarrow> Some (digits_value ip, 0, r))
      | None \<Rightarrow>
          (case s of
             c # r' \<Rightarrow>
               if c = of_char CHR ''.'' then
                 (case digitpart r' of
                    Some (fp, r'') \<Rightarrow> Some (digits_value fp, int (length fp), r'')
                  | None \<Rightarrow> None)
               else None
           | [] \<Rightarrow> None))"

text \<open>
  \<open>exponent ::= ("e" | "E") [sign] digitpart\<close>: its value and the rest of the input;
  \<open>None\<close> when the input does not start with an exponent.
\<close>

definition parse_exponent :: "str \<Rightarrow> (int \<times> str) option" where
  "parse_exponent s =
     (case s of
        [] \<Rightarrow> None
      | c # r \<Rightarrow>
          if c = of_char CHR ''e'' \<or> c = of_char CHR ''E'' then
            (case r of
               [] \<Rightarrow> None
             | g # r' \<Rightarrow>
                 if g = of_char CHR ''-'' then
                   (case digitpart r' of Some (ds, t) \<Rightarrow> Some (- digits_value ds, t) | None \<Rightarrow> None)
                 else if g = of_char CHR ''+'' then
                   (case digitpart r' of Some (ds, t) \<Rightarrow> Some (digits_value ds, t) | None \<Rightarrow> None)
                 else
                   (case digitpart r of Some (ds, t) \<Rightarrow> Some (digits_value ds, t) | None \<Rightarrow> None))
          else None)"

text \<open>The binary64 number nearest to \<open>n \<sqdot> 10\<^sup>k\<close>, for \<open>0 \<le> n\<close>.\<close>

definition decimal_to_float :: "bool \<Rightarrow> int \<Rightarrow> int \<Rightarrow> pyfloat" where
  "decimal_to_float neg n k =
     (if 0 \<le> k then round_ratio neg (n * 10 ^ nat k) 1 else round_ratio neg n (10 ^ nat (- k)))"

definition parse_unsigned_float :: "bool \<Rightarrow> str \<Rightarrow> exn + pyfloat" where
  "parse_unsigned_float neg s =
     (if map ascii_lower s = lit ''inf'' \<or> map ascii_lower s = lit ''infinity''
      then Inr (Infinite neg)
      else if map ascii_lower s = lit ''nan'' then Inr NaN
      else case parse_number s of
             None \<Rightarrow> Inl ValueError
           | Some (n, fraction_digits, r) \<Rightarrow>
               if r = [] then Inr (decimal_to_float neg n (- fraction_digits))
               else (case parse_exponent r of
                       Some (x, []) \<Rightarrow> Inr (decimal_to_float neg n (x - fraction_digits))
                     | _ \<Rightarrow> Inl ValueError))"

definition py_float :: "runtime \<Rightarrow> str \<Rightarrow> exn + pyfloat" where
  "py_float rt s =
     (case strip_c_space (to_ascii rt s) of
        [] \<Rightarrow> Inl ValueError
      | c # r \<Rightarrow>
          if c = of_char CHR ''-'' then parse_unsigned_float True r
          else if c = of_char CHR ''+'' then parse_unsigned_float False r
          else parse_unsigned_float False (c # r))"

subsection \<open>Dates\<close>

datatype pydate = Date (year: int) (month: int) (day: int)

datatype pydatetime = Datetime (date_part: pydate) (hour: int) (minute: int) (second: int)

definition is_leap :: "int \<Rightarrow> bool" where
  "is_leap y = (y mod 4 = 0 \<and> (if y mod 100 = 0 then y mod 400 = 0 else True))"

definition days_in_month :: "int \<Rightarrow> int \<Rightarrow> int" where
  "days_in_month y m =
     (if m = 2 then (if is_leap y then 29 else 28)
      else if m = 4 \<or> m = 6 \<or> m = 9 \<or> m = 11 then 30 else 31)"

text \<open>The dates that \<open>datetime.date(y, m, d)\<close> constructs; the others raise \<open>ValueError\<close>.\<close>

definition valid_date :: "int \<Rightarrow> int \<Rightarrow> int \<Rightarrow> bool" where
  "valid_date y m d =
     (1 \<le> y \<and> y \<le> 9999 \<and> 1 \<le> m \<and> m \<le> 12 \<and> 1 \<le> d \<and> d \<le> days_in_month y m)"

definition date_le :: "pydate \<Rightarrow> pydate \<Rightarrow> bool" where
  "date_le a b =
     (year a < year b \<or> (year a = year b \<and>
        (month a < month b \<or> (month a = month b \<and> day a \<le> day b))))"

definition seconds_of_day :: "pydatetime \<Rightarrow> int" where
  "seconds_of_day t = (hour t * 60 + minute t) * 60 + second t"

definition datetime_le :: "pydatetime \<Rightarrow> pydatetime \<Rightarrow> bool" where
  "datetime_le a b =
     (if date_part a = date_part b then seconds_of_day a \<le> seconds_of_day b
      else date_le (date_part a) (date_part b))"

text \<open>
  \<open>strftime("%Y-%m-%d")\<close> and \<open>strftime("%Y-%m-%d %H:%M:%S")\<close>, the year written with
  four digits.
\<close>

definition strftime_date :: "pydate \<Rightarrow> string" where
  "strftime_date d =
     zero_pad 4 (nat (year d)) @ ''-'' @ zero_pad 2 (nat (month d)) @ ''-''
       @ zero_pad 2 (nat (day d))"

definition strftime_datetime :: "pydatetime \<Rightarrow> string" where
  "strftime_datetime t =
     strftime_date (date_part t) @ '' '' @ zero_pad 2 (nat (hour t)) @ '':''
       @ zero_pad 2 (nat (minute t)) @ '':'' @ zero_pad 2 (nat (second t))"

subsection \<open>\<open>datetime.strptime\<close>\<close>

text \<open>
  \<open>strptime\<close> turns the format into a regular expression, one group per directive, and
  matches it at the start of the string with \<open>re.match\<close>; a match that does not reach
  the end of the string, or no match, raises \<open>ValueError\<close>. A directive is a list of
  alternatives tried in order, an alternative a list of character classes: a range of
  ASCII characters, or \<open>\d\<close>, which matches the decimal digits of every script. White
  space in the format matches one or more white space characters (\<open>\s+\<close>), as many
  as possible first.
\<close>

datatype directive = Dir_Y | Dir_m | Dir_d | Dir_H | Dir_M | Dir_S | Lit char | Spaces

datatype char_class = Range char char | Decimal_digit

fun in_class :: "runtime \<Rightarrow> char_class \<Rightarrow> nat \<Rightarrow> bool" where
  "in_class rt (Range lo hi) c = (of_char lo \<le> c \<and> c \<le> of_char hi)"
| "in_class rt Decimal_digit c = (to_decimal rt c \<noteq> None)"

fun match_classes :: "runtime \<Rightarrow> char_class list \<Rightarrow> str \<Rightarrow> (str \<times> str) option" where
  "match_classes rt [] s = Some ([], s)"
| "match_classes rt (r # rs) [] = None"
| "match_classes rt (r # rs) (c # cs) =
     (if in_class rt r c
      then (case match_classes rt rs cs of Some (t, rest) \<Rightarrow> Some (c # t, rest) | None \<Rightarrow> None)
      else None)"

text \<open>
  The groups of \<open>_strptime.TimeRE\<close>:
  \<open>%d\<close> is \<open>3[0-1]|[1-2]\d|0[1-9]|[1-9]| [1-9]\<close>, \<open>%m\<close> is \<open>1[0-2]|0[1-9]|[1-9]\<close>,
  \<open>%H\<close> is \<open>2[0-3]|[0-1]\d|\d\<close>, \<open>%M\<close> is \<open>[0-5]\d|\d\<close>, \<open>%S\<close> is
  \<open>6[0-1]|[0-5]\d|\d\<close> and \<open>%Y\<close> is \<open>\d\d\d\d\<close>.
\<close>

definition one :: "char \<Rightarrow> char_class" where
  "one c = Range c c"

fun alternatives :: "directive \<Rightarrow> char_class list list" where
  "alternatives Dir_d =
     [[one CHR ''3'', Range CHR ''0'' CHR ''1''], [Range CHR ''1'' CHR ''2'', Decimal_digit],
      [one CHR ''0'', Range CHR ''1'' CHR ''9''], [Range CHR ''1'' CHR ''9''],
      [one CHR '' '', Range CHR ''1'' CHR ''9'']]"
| "alternatives Dir_m =
     [[one CHR ''1'', Range CHR ''0'' CHR ''2''], [one CHR ''0'', Range CHR ''1'' CHR ''9''],
      [Range CHR ''1'' CHR ''9'']]"
| "alternatives Dir_H =
     [[one CHR ''2'', Range CHR ''0'' CHR ''3''], [Range CHR ''0'' CHR ''1'', Decimal_digit],
      [Decimal_digit]]"
| "alternatives Dir_M = [[Range CHR ''0'' CHR ''5'', Decimal_digit], [Decimal_digit]]"
| "alternatives Dir_S =
     [[one CHR ''6'', Range CHR ''0'' CHR ''1''], [Range CHR ''0'' CHR ''5'', Decimal_digit],
      [Decimal_digit]]"
| "alternatives Dir_Y = [[Decimal_digit, Decimal_digit, Decimal_digit, Decimal_digit]]"
| "alternatives (Lit c) = [[one c]]"
| "alternatives Spaces = []"

text \<open>
  Every way the expression matches a prefix of the input, in the order in which the
  backtracking matcher finds them: the groups captured, and the input left over.
  \<open>re.match\<close> returns the first.
\<close>

fun regex_matches ::
  "runtime \<Rightarrow> directive list \<Rightarrow> str \<Rightarrow> ((directive \<times> str) list \<times> str) list" where
  "regex_matches rt [] s = [([], s)]"
| "regex_matches rt (Spaces # ds) s =
     concat (map (\<lambda>k. regex_matches rt ds (drop k s))
                 (rev [1 ..< Suc (length (takeWhile (is_space rt) s))]))"
| "regex_matches rt (d # ds) s =
     concat (map (\<lambda>alt. case match_classes rt alt s of
                           None \<Rightarrow> []
                         | Some (t, rest) \<Rightarrow>
                             map (\<lambda>(groups, left). ((d, t) # groups, left))
                                 (regex_matches rt ds rest))
                 (alternatives d))"

text \<open>
  \<open>int(t)\<close> of the text of a group: its digits, of whatever script, by their decimal
  values; the space that may lead the day is skipped.
\<close>

definition int_of_group :: "runtime \<Rightarrow> str \<Rightarrow> int" where
  "int_of_group rt t =
     foldl (\<lambda>a c. case to_decimal rt c of Some d \<Rightarrow> 10 * a + int d | None \<Rightarrow> a) 0 t"

text \<open>\<open>int(found_dict[d])\<close>, or the default when the format has no such directive.\<close>

definition group_value :: "runtime \<Rightarrow> directive \<Rightarrow> int \<Rightarrow> (directive \<times> str) list \<Rightarrow> int" where
  "group_value rt d dflt groups =
     (case map_of groups d of
        None \<Rightarrow> dflt
      | Some t \<Rightarrow> int_of_group rt t)"

definition strptime :: "runtime \<Rightarrow> str \<Rightarrow> directive list \<Rightarrow> exn + pydatetime" where
  "strptime rt data_string format =
     (case regex_matches rt format data_string of
        [] \<Rightarrow> Inl ValueError
      | (groups, left) # _ \<Rightarrow>
          if left \<noteq> [] then Inl ValueError
          else let y = group_value rt Dir_Y 1900 groups;
                   m = group_value rt Dir_m 1 groups;
                   d = group_value rt Dir_d 1 groups;
                   S = group_value rt Dir_S 0 groups
               in if valid_date y m d \<and> S \<le> 59
                  then Inr (Datetime (Date y m d) (group_value rt Dir_H 0 groups)
                                     (group_value rt Dir_M 0 groups) S)
                  else Inl ValueError)"

text \<open>\<open>"%Y-%m-%d %H:%M:%S"\<close>, \<open>"%Y-%m-%d"\<close> and \<open>"%d.%m.%Y"\<close>\<close>

definition fmt_datetime :: "directive list" where
  "fmt_datetime =
     [Dir_Y, Lit CHR ''-'', Dir_m, Lit CHR ''-'', Dir_d, Spaces,
      Dir_H, Lit CHR '':'', Dir_M, Lit CHR '':'', Dir_S]"

definition fmt_iso_date :: "directive list" where
  "fmt_iso_date = [Dir_Y, Lit CHR ''-'', Dir_m, Lit CHR ''-'', Dir_d]"

definition fmt_dotted_date :: "directive list" where
  "fmt_dotted_date = [Dir_d, Lit CHR ''.'', Dir_m, Lit CHR ''.'', Dir_Y]"

subsection \<open>Dynamically typed values\<close>

text \<open>The values a filter descriptor holds under its keys.\<close>

datatype pyval =
    VNone | VBool bool | VInt int | VFloat pyfloat | VStr str
  | VDate pydate | VDatetime pydatetime

text \<open>A number as an exact magnitude for comparison; \<open>bool\<close> is a subclass of \<open>int\<close>.\<close>

fun number_of :: "pyval \<Rightarrow> pyfloat option" where
  "number_of (VFloat x) = Some x"
| "number_of (VInt i) = Some (Finite (i < 0) \<bar>i\<bar> 0)"
| "number_of (VBool b) = Some (Finite False (if b then 1 else 0) 0)"
| "number_of v = None"

fun str_le :: "str \<Rightarrow> str \<Rightarrow> bool" where
  "str_le [] t = True"
| "str_le (c # cs) [] = False"
| "str_le (c # cs) (d # ds) = (c < d \<or> (c = d \<and> str_le cs ds))"

text \<open>
  \<open>a <= b\<close>: defined between two numbers, two strings, two dates or two datetimes; any
  other pair raises \<open>TypeError\<close> (so does a \<open>date\<close> against a \<open>datetime\<close>).
\<close>

fun py_le :: "pyval \<Rightarrow> pyval \<Rightarrow> exn + bool" where
  "py_le (VStr s) (VStr t) = Inr (str_le s t)"
| "py_le (VDate a) (VDate b) = Inr (date_le a b)"
| "py_le (VDatetime a) (VDatetime b) = Inr (datetime_le a b)"
| "py_le a b =
     (case (number_of a, number_of b) of
        (Some x, Some y) \<Rightarrow> Inr (float_le x y)
      | _ \<Rightarrow> Inl TypeError)"

text \<open>
  The chained comparison \<open>a <= b <= c\<close>: \<open>b <= c\<close> is evaluated only when \<open>a <= b\<close>
  is true.
\<close>

definition py_chain_le :: "pyval \<Rightarrow> pyval \<Rightarrow> pyval \<Rightarrow> exn + bool" where
  "py_chain_le a b c =
     (case py_le a b of
        Inl e \<Rightarrow> Inl e
      | Inr first \<Rightarrow> if first then py_le b c else Inr False)"

text \<open>\<open>d.get(key, default)\<close>, for the keys that the source names by ASCII literals.\<close>

definition dict_get :: "(string \<rightharpoonup> pyval) \<Rightarrow> string \<Rightarrow> pyval \<Rightarrow> pyval" where
  "dict_get d k dflt = (case d k of None \<Rightarrow> dflt | Some v \<Rightarrow> v)"

text \<open>
  Sequence indexing \<open>xs[i]\<close> of Python lists (and of a pandas \<open>Index\<close>): a negative
  index counts from the end, and an index outside the sequence raises \<open>IndexError\<close>.
\<close>

definition py_index :: "'a list \<Rightarrow> int \<Rightarrow> exn + 'a" where
  "py_index xs i =
     (if 0 \<le> i \<and> i < int (length xs) then Inr (xs ! nat i)
      else if i < 0 \<and> - int (length xs) \<le> i then Inr (xs ! nat (int (length xs) + i))
      else Inl IndexError)"

section \<open>The filter predicate evaluator\<close>

text \<open>
  \<open>SortFilterProxyModel.apply_filter(value, filter_data)\<close>. Its caller passes what
  \<open>data(index, DisplayRole)\<close> returned: a \<open>str\<close> (\<open>Some s\<close>) or \<open>None\<close>. The
  descriptor \<open>filter_data\<close> is a dictionary from keys to values.
\<close>

definition py_str :: "str option \<Rightarrow> str" where
  "py_str value = (case value of None \<Rightarrow> lit ''None'' | Some s \<Rightarrow> s)"

text \<open>
  A handler \<open>except (E1, ...): return r\<close> around a body, and the outermost
  \<open>except Exception: return r\<close>.
\<close>

definition except_return :: "exn list \<Rightarrow> bool \<Rightarrow> exn + bool \<Rightarrow> exn + bool" where
  "except_return caught r body =
     (case body of
        Inr b \<Rightarrow> Inr b
      | Inl e \<Rightarrow> if e \<in> set caught then Inr r else Inl e)"

definition except_Exception_return :: "bool \<Rightarrow> exn + bool \<Rightarrow> bool" where
  "except_Exception_return r body = (case body of Inr b \<Rightarrow> b | Inl e \<Rightarrow> r)"

text \<open>The body of the inner \<open>try\<close> of the \<open>range\<close> branch.\<close>

definition range_body :: "runtime \<Rightarrow> str option \<Rightarrow> pyval \<Rightarrow> pyval \<Rightarrow> exn + bool" where
  "range_body rt value min_val max_val =
     (case py_float rt (remove_commas (py_str value)) of
        Inl e \<Rightarrow> Inl e
      | Inr num_val \<Rightarrow> py_chain_le min_val (VFloat num_val) max_val)"

definition range_branch :: "runtime \<Rightarrow> str option \<Rightarrow> (string \<rightharpoonup> pyval) \<Rightarrow> exn + bool" where
  "range_branch rt value filter_data =
     (let min_val = dict_get filter_data ''min'' (VFloat (Infinite True));
          max_val = dict_get filter_data ''max'' (VFloat (Infinite False))
      in except_return [ValueError, TypeError] False (range_body rt value min_val max_val))"

text \<open>The \<open>text\<close> branch; \<open>.lower()\<close> exists on a \<open>str\<close> only.\<close>

definition text_branch :: "runtime \<Rightarrow> str option \<Rightarrow> (string \<rightharpoonup> pyval) \<Rightarrow> exn + bool" where
  "text_branch rt value filter_data =
     (case dict_get filter_data ''value'' (VStr []) of
        VStr s \<Rightarrow>
          (let search_text = lower rt s
           in if search_text = [] then Inr True
              else Inr (contains search_text (lower rt (py_str value))))
      | _ \<Rightarrow> Inl AttributeError)"

text \<open>
  The \<open>for ... else\<close> over the formats: the first format that parses gives the
  value; \<open>None\<close> when every format raised \<open>ValueError\<close>.
\<close>

fun first_parse :: "runtime \<Rightarrow> str \<Rightarrow> directive list list \<Rightarrow> pydatetime option" where
  "first_parse rt s [] = None"
| "first_parse rt s (fmt # fmts) =
     (case strptime rt s fmt of
        Inr date_val \<Rightarrow> Some date_val
      | Inl e \<Rightarrow> first_parse rt s fmts)"

definition date_formats :: "directive list list" where
  "date_formats = [fmt_datetime, fmt_iso_date, fmt_dotted_date]"

text \<open>
  The body of the inner \<open>try\<close> of the \<open>date\<close> branch. A value that is not a
  \<open>str\<close> is \<open>None\<close> here, which has no method \<open>date\<close>.
\<close>

definition date_body :: "runtime \<Rightarrow> str option \<Rightarrow> pyval \<Rightarrow> pyval \<Rightarrow> exn + bool" where
  "date_body rt value date_from date_to =
     (case value of
        Some s \<Rightarrow>
          (case first_parse rt s date_formats of
             None \<Rightarrow> Inr False
           | Some date_val \<Rightarrow> py_chain_le date_from (VDate (date_part date_val)) date_to)
      | None \<Rightarrow> Inl AttributeError)"

definition date_branch :: "runtime \<Rightarrow> str option \<Rightarrow> (string \<rightharpoonup> pyval) \<Rightarrow> exn + bool" where
  "date_branch rt value filter_data =
     (let date_from = dict_get filter_data ''from'' VNone;
          date_to = dict_get filter_data ''to'' VNone
      in except_return [ValueError, TypeError, AttributeError] False
           (date_body rt value date_from date_to))"

text \<open>
  The \<open>bool\<close> branch. The two localized tokens are the Cyrillic words of the source,
  by their code points. With a \<open>value\<close> that is neither \<open>True\<close> nor \<open>False\<close>
  the branch falls through to the final \<open>return True\<close>.
\<close>

definition true_tokens :: "str list" where
  "true_tokens = [lit ''true'', lit ''1'', [1076, 1072], lit ''yes'']"

definition false_tokens :: "str list" where
  "false_tokens = [lit ''false'', lit ''0'', [1085, 1077, 1090], lit ''no'']"

definition bool_branch :: "runtime \<Rightarrow> str option \<Rightarrow> (string \<rightharpoonup> pyval) \<Rightarrow> exn + bool" where
  "bool_branch rt value filter_data =
     (let filter_value = dict_get filter_data ''value'' VNone;
          value_str = lower rt (py_str value)
      in if filter_value = VBool True then Inr (value_str \<in> set true_tokens)
         else if filter_value = VBool False then Inr (value_str \<in> set false_tokens)
         else Inr True)"

definition apply_filter :: "runtime \<Rightarrow> str option \<Rightarrow> (string \<rightharpoonup> pyval) \<Rightarrow> bool" where
  "apply_filter rt value filter_data =
     (let filter_type = dict_get filter_data ''type'' VNone
      in except_Exception_return True
           (if filter_type = VStr (lit ''range'') then range_branch rt value filter_data
            else if filter_type = VStr (lit ''text'') then text_branch rt value filter_data
            else if filter_type = VStr (lit ''date'') then date_branch rt value filter_data
            else if filter_type = VStr (lit ''bool'') then bool_branch rt value filter_data
            else Inr True))"

text \<open>Descriptors used as examples.\<close>

definition range_5_10 :: "string \<rightharpoonup> pyval" where
  "range_5_10 = [''type'' \<mapsto> VStr (lit ''range''), ''min'' \<mapsto> VFloat (float_of_int 5),
                 ''max'' \<mapsto> VFloat (float_of_int 10)]"

definition range_unbounded :: "string \<rightharpoonup> pyval" where
  "range_unbounded = [''type'' \<mapsto> VStr (lit ''range'')]"

definition range_text_bound :: "string \<rightharpoonup> pyval" where
  "range_text_bound = [''type'' \<mapsto> VStr (lit ''range''), ''min'' \<mapsto> VStr (lit ''5'')]"

definition text_number_sought :: "string \<rightharpoonup> pyval" where
  "text_number_sought = [''type'' \<mapsto> VStr (lit ''text''), ''value'' \<mapsto> VInt 5]"

definition date_march_2024 :: "string \<rightharpoonup> pyval" where
  "date_march_2024 = [''type'' \<mapsto> VStr (lit ''date''), ''from'' \<mapsto> VDate (Date 2024 3 1),
                      ''to'' \<mapsto> VDate (Date 2024 3 31)]"

definition date_no_from :: "string \<rightharpoonup> pyval" where
  "date_no_from = [''type'' \<mapsto> VStr (lit ''date''), ''to'' \<mapsto> VDate (Date 2024 3 31)]"

section \<open>The two data frames\<close>

subsection \<open>pandas\<close>

text \<open>
  A pandas column is an array of one dtype. A cell read with \<open>iloc\<close> from an integer,
  a float or a boolean column is a numpy scalar of the column's type (\<open>np.int64\<close>,
  \<open>np.float64\<close>, \<open>np.float32\<close>, \<open>np.bool_\<close>, ...), from a \<open>datetime64[ns]\<close> column a
  \<open>pd.Timestamp\<close> or \<open>NaT\<close>, and from an \<open>object\<close> column the Python object stored
  there: here \<open>None\<close>, a \<open>str\<close>, an \<open>int\<close>, a \<open>float\<close> or a \<open>bool\<close>. A frame
  is the list of its columns, each with its label and its cells in their current order; a
  frame without columns has no rows here.
\<close>

datatype np_int_type =
    np_int8 | np_int16 | np_int32 | np_int64 | np_uint8 | np_uint16 | np_uint32 | np_uint64

datatype np_float_type = np_float32 | np_float64

datatype py_object = PyNone | PyStr str | PyInt int | PyFloat pyfloat | PyBool bool

datatype pd_series =
    IntegerArray np_int_type "int list"
  | FloatingArray np_float_type "pyfloat list"
  | BoolArray "bool list"
  | DatetimeArray "pydatetime option list"
  | ObjectArray "py_object list"

datatype pd_value =
    NpInteger int | NpFloating np_float_type pyfloat | NpBool bool
  | Timestamp pydatetime | NaT | Object py_object

datatype pd_dtype =
    pd_integer np_int_type | pd_floating np_float_type | pd_bool | pd_datetime64_ns | pd_object

record pd_column =
  pd_name :: string
  pd_series :: pd_series

type_synonym pd_dataframe = "pd_column list"

fun pd_type :: "pd_series \<Rightarrow> pd_dtype" where
  "pd_type (IntegerArray t xs) = pd_integer t"
| "pd_type (FloatingArray t xs) = pd_floating t"
| "pd_type (BoolArray xs) = pd_bool"
| "pd_type (DatetimeArray xs) = pd_datetime64_ns"
| "pd_type (ObjectArray xs) = pd_object"

definition timestamp_or_NaT :: "pydatetime option \<Rightarrow> pd_value" where
  "timestamp_or_NaT x = (case x of None \<Rightarrow> NaT | Some t \<Rightarrow> Timestamp t)"

fun pd_cells :: "pd_series \<Rightarrow> pd_value list" where
  "pd_cells (IntegerArray t xs) = map NpInteger xs"
| "pd_cells (FloatingArray t xs) = map (NpFloating t) xs"
| "pd_cells (BoolArray xs) = map NpBool xs"
| "pd_cells (DatetimeArray xs) = map timestamp_or_NaT xs"
| "pd_cells (ObjectArray xs) = map Object xs"

text \<open>\<open>str(dtype)\<close>\<close>

fun np_int_type_str :: "np_int_type \<Rightarrow> string" where
  "np_int_type_str np_int8 = ''int8''"
| "np_int_type_str np_int16 = ''int16''"
| "np_int_type_str np_int32 = ''int32''"
| "np_int_type_str np_int64 = ''int64''"
| "np_int_type_str np_uint8 = ''uint8''"
| "np_int_type_str np_uint16 = ''uint16''"
| "np_int_type_str np_uint32 = ''uint32''"
| "np_int_type_str np_uint64 = ''uint64''"

fun pd_dtype_str :: "pd_dtype \<Rightarrow> string" where
  "pd_dtype_str (pd_integer t) = np_int_type_str t"
| "pd_dtype_str (pd_floating np_float32) = ''float32''"
| "pd_dtype_str (pd_floating np_float64) = ''float64''"
| "pd_dtype_str pd_bool = ''bool''"
| "pd_dtype_str pd_datetime64_ns = ''datetime64[ns]''"
| "pd_dtype_str pd_object = ''object''"

text \<open>\<open>df.iloc[row, col]\<close> for indices that are not negative.\<close>

definition pd_iloc :: "pd_dataframe \<Rightarrow> nat \<Rightarrow> nat \<Rightarrow> exn + pd_value" where
  "pd_iloc df row col =
     (if col < length df \<and> row < length (pd_cells (pd_series (df ! col)))
      then Inr (pd_cells (pd_series (df ! col)) ! row)
      else Inl IndexError)"

text \<open>\<open>pd.isna(value)\<close>\<close>

fun pd_isna :: "pd_value \<Rightarrow> bool" where
  "pd_isna (Object PyNone) = True"
| "pd_isna NaT = True"
| "pd_isna (NpFloating t x) = (x = NaN)"
| "pd_isna (Object (PyFloat x)) = (x = NaN)"
| "pd_isna v = False"

text \<open>
  The types a cell is an instance of. \<open>np.float64\<close> is a subclass of \<open>float\<close>, and
  \<open>bool\<close> of \<open>int\<close>; \<open>np.float32\<close>, the numpy integers and \<open>np.bool_\<close> are subclasses
  of neither \<open>int\<close> nor \<open>float\<close>.
\<close>

fun is_np_integer :: "pd_value \<Rightarrow> bool" where
  "is_np_integer (NpInteger i) = True"
| "is_np_integer v = False"

fun is_np_floating :: "pd_value \<Rightarrow> bool" where
  "is_np_floating (NpFloating t x) = True"
| "is_np_floating v = False"

fun is_python_int_or_float :: "pd_value \<Rightarrow> bool" where
  "is_python_int_or_float (NpFloating t x) = (t = np_float64)"
| "is_python_int_or_float (Object (PyInt i)) = True"
| "is_python_int_or_float (Object (PyFloat x)) = True"
| "is_python_int_or_float (Object (PyBool b)) = True"
| "is_python_int_or_float v = False"

text \<open>The largest and the smallest of some floats, NaNs skipped; NaN when nothing is left.\<close>

definition float_max :: "pyfloat list \<Rightarrow> pyfloat" where
  "float_max xs =
     foldl (\<lambda>a x. if a = NaN then x else if x = NaN then a else if float_le a x then x else a)
           NaN xs"

definition float_min :: "pyfloat list \<Rightarrow> pyfloat" where
  "float_min xs =
     foldl (\<lambda>a x. if a = NaN then x else if x = NaN then a else if float_le x a then x else a)
           NaN xs"

text \<open>
  The numbers of an \<open>object\<close> column are Python's: integers without bound, and floats.
  \<open>abs\<close> raises \<open>TypeError\<close> on \<open>None\<close> and on text; \<open>abs(True)\<close> is \<open>1\<close>.
\<close>

datatype py_number = IntNumber int | FloatNumber pyfloat

fun object_abs :: "py_object \<Rightarrow> exn + py_number" where
  "object_abs (PyInt i) = Inr (IntNumber \<bar>i\<bar>)"
| "object_abs (PyBool b) = Inr (IntNumber (if b then 1 else 0))"
| "object_abs (PyFloat x) = Inr (FloatNumber (float_abs x))"
| "object_abs v = Inl TypeError"

fun abs_all :: "py_object list \<Rightarrow> exn + py_number list" where
  "abs_all [] = Inr []"
| "abs_all (v # vs) =
     (case object_abs v of
        Inl e \<Rightarrow> Inl e
      | Inr a \<Rightarrow> (case abs_all vs of Inl e \<Rightarrow> Inl e | Inr as \<Rightarrow> Inr (a # as)))"

text \<open>Integers and floats compare by their exact values.\<close>

fun exact_value :: "py_number \<Rightarrow> pyfloat" where
  "exact_value (IntNumber i) = Finite (i < 0) \<bar>i\<bar> 0"
| "exact_value (FloatNumber x) = x"

definition number_max :: "py_number list \<Rightarrow> py_number" where
  "number_max ns =
     foldl (\<lambda>a n. if a = FloatNumber NaN then n else if n = FloatNumber NaN then a
                   else if float_le (exact_value a) (exact_value n) then n else a)
           (FloatNumber NaN) ns"

text \<open>
  An integer that meets a float in \<open>+\<close> or \<open>/\<close> is converted first, to the nearest
  float; one too large for a float raises \<open>OverflowError\<close>.
\<close>

fun as_float :: "py_number \<Rightarrow> exn + pyfloat" where
  "as_float (FloatNumber x) = Inr x"
| "as_float (IntNumber i) =
     (case float_of_int i of Infinite s \<Rightarrow> Inl OverflowError | x \<Rightarrow> Inr x)"

text \<open>
  \<open>normalized = abs(value) / (series.abs().max() + 1e-9)\<close> of the pandas model, asked
  for the cells that are an \<open>int\<close> or a \<open>float\<close>: those of a \<open>float64\<close> column, where
  the arithmetic is numpy's, and those of an \<open>object\<close> column, where it is Python's,
  in which a zero divisor raises. The left operand is evaluated first. Other pairs of a
  column and a cell do not meet; they raise \<open>TypeError\<close> here.
\<close>

fun pd_normalized :: "pd_series \<Rightarrow> pd_value \<Rightarrow> exn + pyfloat" where
  "pd_normalized (FloatingArray np_float64 xs) (NpFloating np_float64 x) =
     Inr (float_div (float_abs x) (float_add (float_max (map float_abs xs)) float_1e_9))"
| "pd_normalized (ObjectArray xs) (Object v) =
     (case object_abs v of
        Inl e \<Rightarrow> Inl e
      | Inr numerator \<Rightarrow>
          (case abs_all xs of
             Inl e \<Rightarrow> Inl e
           | Inr as \<Rightarrow>
               (case as_float (number_max as) of
                  Inl e \<Rightarrow> Inl e
                | Inr largest \<Rightarrow>
                    (case as_float numerator of
                       Inl e \<Rightarrow> Inl e
                     | Inr a \<Rightarrow> py_float_div a (float_add largest float_1e_9)))))"
| "pd_normalized s v = Inl TypeError"

subsection \<open>polars\<close>

text \<open>
  A polars column is typed: all its cells hold values of the column's dtype, or null.
  A cell read with \<open>df[row, col]\<close> is a plain Python value.
\<close>

datatype int_type = Int8 | Int16 | Int32 | Int64 | UInt8 | UInt16 | UInt32 | UInt64

datatype float_type = Float32 | Float64

datatype pl_dtype =
    Integer_dtype int_type | Float_dtype float_type | Boolean | Utf8 | Date_dtype
  | Datetime_dtype

datatype pl_series =
    IntSeries int_type "int option list"
  | FloatSeries float_type "pyfloat option list"
  | BooleanSeries "bool option list"
  | Utf8Series "str option list"
  | DateSeries "pydate option list"
  | DatetimeSeries "pydatetime option list"

datatype pl_value =
    PlNone | PlInt int | PlFloat pyfloat | PlBool bool
  | PlDate pydate | PlDatetime pydatetime | PlStr str

record pl_column =
  pl_name :: string
  pl_series :: pl_series

type_synonym pl_dataframe = "pl_column list"

fun series_dtype :: "pl_series \<Rightarrow> pl_dtype" where
  "series_dtype (IntSeries t xs) = Integer_dtype t"
| "series_dtype (FloatSeries t xs) = Float_dtype t"
| "series_dtype (BooleanSeries xs) = Boolean"
| "series_dtype (Utf8Series xs) = Utf8"
| "series_dtype (DateSeries xs) = Date_dtype"
| "series_dtype (DatetimeSeries xs) = Datetime_dtype"

definition py_value :: "('a \<Rightarrow> pl_value) \<Rightarrow> 'a option \<Rightarrow> pl_value" where
  "py_value f x = (case x of None \<Rightarrow> PlNone | Some v \<Rightarrow> f v)"

fun series_values :: "pl_series \<Rightarrow> pl_value list" where
  "series_values (IntSeries t xs) = map (py_value PlInt) xs"
| "series_values (FloatSeries t xs) = map (py_value PlFloat) xs"
| "series_values (BooleanSeries xs) = map (py_value PlBool) xs"
| "series_values (Utf8Series xs) = map (py_value PlStr) xs"
| "series_values (DateSeries xs) = map (py_value PlDate) xs"
| "series_values (DatetimeSeries xs) = map (py_value PlDatetime) xs"

text \<open>
  \<open>str(dtype)\<close>. The datetime columns of this model have microseconds and no time zone.
\<close>

fun int_type_str :: "int_type \<Rightarrow> string" where
  "int_type_str Int8 = ''Int8''"
| "int_type_str Int16 = ''Int16''"
| "int_type_str Int32 = ''Int32''"
| "int_type_str Int64 = ''Int64''"
| "int_type_str UInt8 = ''UInt8''"
| "int_type_str UInt16 = ''UInt16''"
| "int_type_str UInt32 = ''UInt32''"
| "int_type_str UInt64 = ''UInt64''"

fun pl_dtype_str :: "pl_dtype \<Rightarrow> string" where
  "pl_dtype_str (Integer_dtype t) = int_type_str t"
| "pl_dtype_str (Float_dtype Float32) = ''Float32''"
| "pl_dtype_str (Float_dtype Float64) = ''Float64''"
| "pl_dtype_str Boolean = ''Boolean''"
| "pl_dtype_str Utf8 = ''String''"
| "pl_dtype_str Date_dtype = ''Date''"
| "pl_dtype_str Datetime_dtype =
     ''Datetime(time_unit='' @ [CHR 0x27] @ ''us'' @ [CHR 0x27] @ '', time_zone=None)''"

text \<open>\<open>dtype in [pl.Int8, ..., pl.UInt64]\<close> and \<open>dtype in [pl.Float32, pl.Float64]\<close>\<close>

fun is_integer_dtype :: "pl_dtype \<Rightarrow> bool" where
  "is_integer_dtype (Integer_dtype t) = True"
| "is_integer_dtype d = False"

fun is_float_dtype :: "pl_dtype \<Rightarrow> bool" where
  "is_float_dtype (Float_dtype t) = True"
| "is_float_dtype d = False"

text \<open>\<open>df[row, col]\<close> for indices that are not negative.\<close>

definition pl_cell :: "pl_dataframe \<Rightarrow> nat \<Rightarrow> nat \<Rightarrow> exn + pl_value" where
  "pl_cell df row col =
     (if col < length df \<and> row < length (series_values (pl_series (df ! col)))
      then Inr (series_values (pl_series (df ! col)) ! row)
      else Inl IndexError)"

text \<open>
  \<open>series.max()\<close> and \<open>series.min()\<close>: nulls are skipped, and NaNs; \<open>None\<close> when the
  column has no value, or is not numeric (the models ask for numeric columns only).
\<close>

definition non_null :: "'a option list \<Rightarrow> 'a list" where
  "non_null xs = List.map_filter (\<lambda>x. x) xs"

fun series_max :: "pl_series \<Rightarrow> pl_value" where
  "series_max (IntSeries t xs) =
     (case non_null xs of [] \<Rightarrow> PlNone | y # ys \<Rightarrow> PlInt (foldl max y ys))"
| "series_max (FloatSeries t xs) =
     (case non_null xs of [] \<Rightarrow> PlNone | y # ys \<Rightarrow> PlFloat (float_max (y # ys)))"
| "series_max s = PlNone"

fun series_min :: "pl_series \<Rightarrow> pl_value" where
  "series_min (IntSeries t xs) =
     (case non_null xs of [] \<Rightarrow> PlNone | y # ys \<Rightarrow> PlInt (foldl min y ys))"
| "series_min (FloatSeries t xs) =
     (case non_null xs of [] \<Rightarrow> PlNone | y # ys \<Rightarrow> PlFloat (float_min (y # ys)))"
| "series_min s = PlNone"

text \<open>
  The operators the polars model applies to cells: \<open>a != b\<close>, \<open>a - b\<close> and \<open>a / b\<close>,
  on two integers or two floats. Other operands do not meet in a typed column; they
  raise \<open>TypeError\<close> here.
\<close>

fun pl_ne :: "pl_value \<Rightarrow> pl_value \<Rightarrow> bool" where
  "pl_ne (PlFloat x) (PlFloat y) = (\<not> float_eq x y)"
| "pl_ne a b = (a \<noteq> b)"

fun pl_sub :: "pl_value \<Rightarrow> pl_value \<Rightarrow> exn + pl_value" where
  "pl_sub (PlInt a) (PlInt b) = Inr (PlInt (a - b))"
| "pl_sub (PlFloat x) (PlFloat y) = Inr (PlFloat (float_sub x y))"
| "pl_sub a b = Inl TypeError"

fun pl_truediv :: "pl_value \<Rightarrow> pl_value \<Rightarrow> exn + pyfloat" where
  "pl_truediv (PlInt a) (PlInt b) = int_truediv a b"
| "pl_truediv (PlFloat x) (PlFloat y) = py_float_div x y"
| "pl_truediv a b = Inl TypeError"

text \<open>
  \<open>f"{value:,}"\<close>, \<open>f"{value:,.2f}"\<close>, the two \<open>strftime\<close> calls and \<open>str(value)\<close> on a
  cell. In a typed column each meets the values of its branch only: an integer, a float,
  a date, a datetime, and for \<open>str\<close> text or a boolean. On a value its branch cannot
  meet the first four raise \<open>TypeError\<close> here.
\<close>

fun pl_format_grouped :: "pl_value \<Rightarrow> exn + str" where
  "pl_format_grouped (PlInt i) = Inr (lit (format_int_grouped i))"
| "pl_format_grouped v = Inl TypeError"

fun pl_format_grouped_2f :: "pl_value \<Rightarrow> exn + str" where
  "pl_format_grouped_2f (PlFloat x) = Inr (lit (format_float_grouped_2f x))"
| "pl_format_grouped_2f v = Inl TypeError"

fun pl_strftime_date :: "pl_value \<Rightarrow> exn + str" where
  "pl_strftime_date (PlDate d) = Inr (lit (strftime_date d))"
| "pl_strftime_date v = Inl TypeError"

fun pl_strftime_datetime :: "pl_value \<Rightarrow> exn + str" where
  "pl_strftime_datetime (PlDatetime t) = Inr (lit (strftime_datetime t))"
| "pl_strftime_datetime v = Inl TypeError"

fun pl_str :: "runtime \<Rightarrow> pl_value \<Rightarrow> str" where
  "pl_str rt (PlStr s) = s"
| "pl_str rt (PlBool b) = lit (if b then ''True'' else ''False'')"
| "pl_str rt (PlInt i) = lit (str_of_int i)"
| "pl_str rt PlNone = lit ''None''"
| "pl_str rt (PlDate d) = lit (strftime_date d)"
| "pl_str rt (PlDatetime t) = lit (strftime_datetime t)"
| "pl_str rt (PlFloat x) = lit (repr_of rt x)"

section \<open>The table models\<close>

text \<open>
  A \<open>QModelIndex\<close> is invalid, or holds a row and a column that are not negative. The
  roles modelled are the display, alignment and background roles; the tool tip role is
  left out, and every role the models do not handle stands for \<open>OtherRole\<close>.
\<close>

datatype QModelIndex = InvalidIndex | ModelIndex nat nat

datatype role = DisplayRole | TextAlignmentRole | BackgroundRole | OtherRole

datatype alignment = AlignRight_AlignVCenter | AlignLeft_AlignVCenter

datatype variant = QNone | QStr str | QAlignment alignment | QColor int int int

datatype orientation = Horizontal | Vertical

datatype signal = LayoutAboutToBeChanged | LayoutChanged

datatype sort_order = AscendingOrder | DescendingOrder

text \<open>
  What a model does to the world outside it, in the order in which it does it. It emits
  a signal: Qt runs the slots connected to the signal at once, and they see the model as
  it is at that moment, so the event holds the frame of that moment. And it calls the
  reorder of its library, with the column label and the flag it passes.
\<close>

datatype 'frame event = Emitted signal 'frame | Reorder_called string bool

text \<open>
  The state of a model: its working frame \<open>_data\<close>, and the trace of its events so far,
  oldest first.
\<close>

record PandasTableModel =
  pd_data :: pd_dataframe
  pd_trace :: "pd_dataframe event list"

record PolarsTableModel =
  pl_data :: pl_dataframe
  pl_trace :: "pl_dataframe event list"

subsection \<open>\<open>PandasTableModel\<close>\<close>

definition PandasTableModel_rowCount :: "PandasTableModel \<Rightarrow> nat" where
  "PandasTableModel_rowCount self =
     (case pd_data self of [] \<Rightarrow> 0 | c # cs \<Rightarrow> length (pd_cells (pd_series c)))"

definition PandasTableModel_columnCount :: "PandasTableModel \<Rightarrow> nat" where
  "PandasTableModel_columnCount self = length (pd_data self)"

text \<open>\<open>str(value)\<close> of a Python object, and of the cells that no other branch formats.\<close>

fun object_str :: "runtime \<Rightarrow> py_object \<Rightarrow> str" where
  "object_str rt PyNone = lit ''None''"
| "object_str rt (PyStr s) = s"
| "object_str rt (PyInt i) = lit (str_of_int i)"
| "object_str rt (PyFloat x) = lit (repr_of rt x)"
| "object_str rt (PyBool b) = lit (if b then ''True'' else ''False'')"

text \<open>
  The display string of a cell that is not missing: a numpy integer is grouped, a numpy
  float is grouped with two decimals, a time stamp (\<open>pd.Timestamp\<close> is a subclass of
  \<open>datetime\<close>) is formatted, anything else is converted with \<open>str\<close>.
\<close>

fun pd_format :: "runtime \<Rightarrow> pd_value \<Rightarrow> str" where
  "pd_format rt (NpInteger i) = lit (format_int_grouped i)"
| "pd_format rt (NpFloating t x) = lit (format_float_grouped_2f x)"
| "pd_format rt (Timestamp t) = lit (strftime_datetime t)"
| "pd_format rt (NpBool b) = lit (if b then ''True'' else ''False'')"
| "pd_format rt NaT = lit ''NaT''"
| "pd_format rt (Object v) = object_str rt v"

definition pd_display :: "runtime \<Rightarrow> pd_value \<Rightarrow> str" where
  "pd_display rt value = (if pd_isna value then [] else pd_format rt value)"

text \<open>The colour of the background role, from \<open>normalized\<close>.\<close>

definition gradient :: "pyfloat \<Rightarrow> exn + variant" where
  "gradient normalized =
     (case py_int (float_mul (float_of_int 255) normalized) of
        Inl e \<Rightarrow> Inl e
      | Inr k \<Rightarrow> (let red = min 255 k; blue = 255 - red in Inr (QColor red 200 blue)))"

definition PandasTableModel_data ::
  "runtime \<Rightarrow> PandasTableModel \<Rightarrow> QModelIndex \<Rightarrow> role \<Rightarrow> exn + variant" where
  "PandasTableModel_data rt self index role =
     (case index of
        InvalidIndex \<Rightarrow> Inr QNone
      | ModelIndex row col \<Rightarrow>
          (case role of
             DisplayRole \<Rightarrow>
               (case pd_iloc (pd_data self) row col of
                  Inl e \<Rightarrow> Inl e
                | Inr value \<Rightarrow> Inr (QStr (pd_display rt value)))
           | TextAlignmentRole \<Rightarrow>
               (case pd_iloc (pd_data self) row col of
                  Inl e \<Rightarrow> Inl e
                | Inr value \<Rightarrow>
                    if is_python_int_or_float value \<or> is_np_integer value \<or> is_np_floating value
                    then Inr (QAlignment AlignRight_AlignVCenter)
                    else Inr (QAlignment AlignLeft_AlignVCenter))
           | BackgroundRole \<Rightarrow>
               (case pd_iloc (pd_data self) row col of
                  Inl e \<Rightarrow> Inl e
                | Inr value \<Rightarrow>
                    if is_python_int_or_float value \<and> \<not> pd_isna value then
                      (case pd_normalized (pd_series (pd_data self ! col)) value of
                         Inl e \<Rightarrow> Inl e
                       | Inr normalized \<Rightarrow> gradient normalized)
                    else Inr QNone)
           | OtherRole \<Rightarrow> Inr QNone))"

text \<open>\<open>headerData\<close> for the display role.\<close>

definition PandasTableModel_headerData :: "PandasTableModel \<Rightarrow> int \<Rightarrow> orientation \<Rightarrow> exn + string" where
  "PandasTableModel_headerData self section' orientation =
     (case orientation of
        Horizontal \<Rightarrow> py_index (map pd_name (pd_data self)) section'
      | Vertical \<Rightarrow> Inr (str_of_int (section' + 1)))"

text \<open>
  \<open>get_column_dtype\<close>, called with the column numbers \<open>0, ..., columnCount - 1\<close>; the
  dtype is returned as pandas names it.
\<close>

definition PandasTableModel_get_column_dtype :: "PandasTableModel \<Rightarrow> nat \<Rightarrow> string" where
  "PandasTableModel_get_column_dtype self column =
     (if column < PandasTableModel_columnCount self
      then pd_dtype_str (pd_type (pd_series (pd_data self ! column)))
      else ''object'')"

text \<open>
  \<open>sort\<close>. The reorder itself is pandas' \<open>DataFrame.sort_values(by, ascending)\<close>,
  library code: it is the parameter \<open>sort_values\<close>, which returns the new frame or
  raises; the call is recorded in the trace at the moment it is made. The column label is
  looked up before the \<open>try\<close>, so an \<open>IndexError\<close> there leaves the method at once. The
  result is the exception that left the method, if any, with the state at that moment.
  The \<open>print\<close> of the handler does not touch the state.
\<close>

definition pd_emit :: "signal \<Rightarrow> PandasTableModel \<Rightarrow> PandasTableModel" where
  "pd_emit s self = self\<lparr>pd_trace := pd_trace self @ [Emitted s (pd_data self)]\<rparr>"

definition pd_call_sort_values ::
  "(pd_dataframe \<Rightarrow> string \<Rightarrow> bool \<Rightarrow> exn + pd_dataframe) \<Rightarrow>
   PandasTableModel \<Rightarrow> string \<Rightarrow> bool \<Rightarrow> (exn + pd_dataframe) \<times> PandasTableModel" where
  "pd_call_sort_values sort_values self by ascending =
     (sort_values (pd_data self) by ascending,
      self\<lparr>pd_trace := pd_trace self @ [Reorder_called by ascending]\<rparr>)"

definition PandasTableModel_sort ::
  "(pd_dataframe \<Rightarrow> string \<Rightarrow> bool \<Rightarrow> exn + pd_dataframe) \<Rightarrow>
   PandasTableModel \<Rightarrow> int \<Rightarrow> sort_order \<Rightarrow> (exn + unit) \<times> PandasTableModel" where
  "PandasTableModel_sort sort_values self column order =
     (let s1 = pd_emit LayoutAboutToBeChanged self in
      case py_index (map pd_name (pd_data s1)) column of
        Inl e \<Rightarrow> (Inl e, s1)
      | Inr col_name \<Rightarrow>
          let ascending = (order = AscendingOrder);
              s2 = (case pd_call_sort_values sort_values s1 col_name ascending of
                      (Inr sorted_frame, s) \<Rightarrow> s\<lparr>pd_data := sorted_frame\<rparr>
                    | (Inl e, s) \<Rightarrow> s)
          in (Inr (), pd_emit LayoutChanged s2))"

subsection \<open>\<open>PolarsTableModel\<close>\<close>

definition PolarsTableModel_rowCount :: "PolarsTableModel \<Rightarrow> nat" where
  "PolarsTableModel_rowCount self =
     (case pl_data self of [] \<Rightarrow> 0 | c # cs \<Rightarrow> length (series_values (pl_series c)))"

definition PolarsTableModel_columnCount :: "PolarsTableModel \<Rightarrow> nat" where
  "PolarsTableModel_columnCount self = length (pl_data self)"

definition pl_display :: "runtime \<Rightarrow> pl_dtype \<Rightarrow> pl_value \<Rightarrow> exn + str" where
  "pl_display rt dtype value =
     (if value = PlNone then Inr []
      else if is_integer_dtype dtype then pl_format_grouped value
      else if is_float_dtype dtype then pl_format_grouped_2f value
      else if dtype = Date_dtype then pl_strftime_date value
      else if dtype = Datetime_dtype then pl_strftime_datetime value
      else Inr (pl_str rt value))"

definition pl_background :: "pl_series \<Rightarrow> pl_value \<Rightarrow> exn + variant" where
  "pl_background series value =
     (if (is_integer_dtype (series_dtype series) \<or> is_float_dtype (series_dtype series))
         \<and> value \<noteq> PlNone then
        (let max_val = series_max series; min_val = series_min series
         in if pl_ne max_val min_val then
              (case pl_sub value min_val of
                 Inl e \<Rightarrow> Inl e
               | Inr numerator \<Rightarrow>
                   (case pl_sub max_val min_val of
                      Inl e \<Rightarrow> Inl e
                    | Inr denominator \<Rightarrow>
                        (case pl_truediv numerator denominator of
                           Inl e \<Rightarrow> Inl e
                         | Inr normalized \<Rightarrow> gradient normalized)))
            else Inr QNone)
      else Inr QNone)"

definition PolarsTableModel_data ::
  "runtime \<Rightarrow> PolarsTableModel \<Rightarrow> QModelIndex \<Rightarrow> role \<Rightarrow> exn + variant" where
  "PolarsTableModel_data rt self index role =
     (case index of
        InvalidIndex \<Rightarrow> Inr QNone
      | ModelIndex row col \<Rightarrow>
          (case role of
             DisplayRole \<Rightarrow>
               if row < PolarsTableModel_rowCount self \<and> col < PolarsTableModel_columnCount self
               then (case pl_cell (pl_data self) row col of
                       Inl e \<Rightarrow> Inl e
                     | Inr value \<Rightarrow>
                         (case pl_display rt (series_dtype (pl_series (pl_data self ! col))) value of
                            Inl e \<Rightarrow> Inl e
                          | Inr s \<Rightarrow> Inr (QStr s)))
               else Inr QNone
           | TextAlignmentRole \<Rightarrow>
               (case py_index (pl_data self) (int col) of
                  Inl e \<Rightarrow> Inl e
                | Inr c \<Rightarrow>
                    if is_integer_dtype (series_dtype (pl_series c))
                       \<or> is_float_dtype (series_dtype (pl_series c))
                    then Inr (QAlignment AlignRight_AlignVCenter)
                    else Inr (QAlignment AlignLeft_AlignVCenter))
           | BackgroundRole \<Rightarrow>
               if row < PolarsTableModel_rowCount self \<and> col < PolarsTableModel_columnCount self
               then (case pl_cell (pl_data self) row col of
                       Inl e \<Rightarrow> Inl e
                     | Inr value \<Rightarrow> pl_background (pl_series (pl_data self ! col)) value)
               else Inr QNone
           | OtherRole \<Rightarrow> Inr QNone))"

definition PolarsTableModel_headerData :: "PolarsTableModel \<Rightarrow> int \<Rightarrow> orientation \<Rightarrow> exn + string" where
  "PolarsTableModel_headerData self section' orientation =
     (case orientation of
        Horizontal \<Rightarrow> py_index (map pl_name (pl_data self)) section'
      | Vertical \<Rightarrow> Inr (str_of_int (section' + 1)))"

text \<open>
  \<open>get_column_dtype\<close>: the name of the polars dtype is searched for \<open>Int\<close>, \<open>UInt\<close>,
  \<open>Float\<close> and \<open>Date\<close>, in that order, to give the pandas name of the type.
\<close>

definition PolarsTableModel_get_column_dtype :: "PolarsTableModel \<Rightarrow> nat \<Rightarrow> string" where
  "PolarsTableModel_get_column_dtype self column =
     (if column < PolarsTableModel_columnCount self then
        (let dtype = pl_dtype_str (series_dtype (pl_series (pl_data self ! column)))
         in if contains ''Int'' dtype \<or> contains ''UInt'' dtype then ''int64''
            else if contains ''Float'' dtype then ''float64''
            else if contains ''Date'' dtype then ''datetime64[ns]''
            else ''object'')
      else ''object'')"

text \<open>
  \<open>sort\<close>, with polars' \<open>DataFrame.sort(by, descending)\<close> as the parameter \<open>pl_sort\<close>.
\<close>

definition pl_emit :: "signal \<Rightarrow> PolarsTableModel \<Rightarrow> PolarsTableModel" where
  "pl_emit s self = self\<lparr>pl_trace := pl_trace self @ [Emitted s (pl_data self)]\<rparr>"

definition pl_call_sort ::
  "(pl_dataframe \<Rightarrow> string \<Rightarrow> bool \<Rightarrow> exn + pl_dataframe) \<Rightarrow>
   PolarsTableModel \<Rightarrow> string \<Rightarrow> bool \<Rightarrow> (exn + pl_dataframe) \<times> PolarsTableModel" where
  "pl_call_sort pl_sort self by descending =
     (pl_sort (pl_data self) by descending,
      self\<lparr>pl_trace := pl_trace self @ [Reorder_called by descending]\<rparr>)"

definition PolarsTableModel_sort ::
  "(pl_dataframe \<Rightarrow> string \<Rightarrow> bool \<Rightarrow> exn + pl_dataframe) \<Rightarrow>
   PolarsTableModel \<Rightarrow> int \<Rightarrow> sort_order \<Rightarrow> (exn + unit) \<times> PolarsTableModel" where
  "PolarsTableModel_sort pl_sort self column order =
     (let s1 = pl_emit LayoutAboutToBeChanged self in
      case py_index (map pl_name (pl_data s1)) column of
        Inl e \<Rightarrow> (Inl e, s1)
      | Inr col_name \<Rightarrow>
          let descending = (order = DescendingOrder);
              s2 = (case pl_call_sort pl_sort s1 col_name descending of
                      (Inr sorted_frame, s) \<Rightarrow> s\<lparr>pl_data := sorted_frame\<rparr>
                    | (Inl e, s) \<Rightarrow> s)
          in (Inr (), pl_emit LayoutChanged s2))"

section \<open>The filter proxy\<close>

text \<open>The source model of the proxy is one of the two table models.\<close>

datatype source_model = PandasSource PandasTableModel | PolarsSource PolarsTableModel

fun rowCount :: "source_model \<Rightarrow> nat" where
  "rowCount (PandasSource m) = PandasTableModel_rowCount m"
| "rowCount (PolarsSource m) = PolarsTableModel_rowCount m"

fun columnCount :: "source_model \<Rightarrow> nat" where
  "columnCount (PandasSource m) = PandasTableModel_columnCount m"
| "columnCount (PolarsSource m) = PolarsTableModel_columnCount m"

fun headerData :: "source_model \<Rightarrow> int \<Rightarrow> orientation \<Rightarrow> exn + string" where
  "headerData (PandasSource m) = PandasTableModel_headerData m"
| "headerData (PolarsSource m) = PolarsTableModel_headerData m"

fun data :: "runtime \<Rightarrow> source_model \<Rightarrow> QModelIndex \<Rightarrow> role \<Rightarrow> exn + variant" where
  "data rt (PandasSource m) = PandasTableModel_data rt m"
| "data rt (PolarsSource m) = PolarsTableModel_data rt m"

fun get_column_dtype :: "source_model \<Rightarrow> nat \<Rightarrow> string" where
  "get_column_dtype (PandasSource m) = PandasTableModel_get_column_dtype m"
| "get_column_dtype (PolarsSource m) = PolarsTableModel_get_column_dtype m"

text \<open>
  \<open>QAbstractTableModel.index(row, column, parent)\<close>, inherited from Qt: the index of a
  position inside the table, the invalid index for any other.
\<close>

definition index :: "source_model \<Rightarrow> int \<Rightarrow> int \<Rightarrow> QModelIndex" where
  "index m row col =
     (if 0 \<le> row \<and> row < int (rowCount m) \<and> 0 \<le> col \<and> col < int (columnCount m)
      then ModelIndex (nat row) (nat col)
      else InvalidIndex)"

record SortFilterProxyModel =
  sourceModel :: "source_model option"
  filters :: "(string \<times> (string \<rightharpoonup> pyval)) list"

definition set_filters ::
  "SortFilterProxyModel \<Rightarrow> (string \<times> (string \<rightharpoonup> pyval)) list \<Rightarrow> SortFilterProxyModel" where
  "set_filters self new_filters = self\<lparr>filters := new_filters\<rparr>"

text \<open>
  The inner loop of \<open>filterAcceptsRow\<close>: the first column whose header is \<open>col_name\<close>,
  or \<open>-1\<close>.
\<close>

fun find_column :: "source_model \<Rightarrow> string \<Rightarrow> nat list \<Rightarrow> exn + int" where
  "find_column m col_name [] = Inr (- 1)"
| "find_column m col_name (i # rest) =
     (case headerData m (int i) Horizontal of
        Inl e \<Rightarrow> Inl e
      | Inr label \<Rightarrow> if label = col_name then Inr (int i) else find_column m col_name rest)"

text \<open>What the display role hands to \<open>apply_filter\<close>: a \<open>str\<close>, or \<open>None\<close>.\<close>

definition str_or_None :: "variant \<Rightarrow> str option" where
  "str_or_None v = (case v of QStr s \<Rightarrow> Some s | _ \<Rightarrow> None)"

text \<open>The outer loop, over the items of \<open>_filters\<close> in their order.\<close>

fun accepts_filters ::
  "runtime \<Rightarrow> source_model \<Rightarrow> int \<Rightarrow> (string \<times> (string \<rightharpoonup> pyval)) list \<Rightarrow> exn + bool" where
  "accepts_filters rt m source_row [] = Inr True"
| "accepts_filters rt m source_row ((col_name, filter_data) # rest) =
     (case find_column m col_name [0 ..< columnCount m] of
        Inl e \<Rightarrow> Inl e
      | Inr col_index \<Rightarrow>
          if col_index = - 1 then accepts_filters rt m source_row rest
          else (case data rt m (index m source_row col_index) DisplayRole of
                  Inl e \<Rightarrow> Inl e
                | Inr value \<Rightarrow>
                    if \<not> apply_filter rt (str_or_None value) filter_data then Inr False
                    else accepts_filters rt m source_row rest))"

definition filterAcceptsRow :: "runtime \<Rightarrow> SortFilterProxyModel \<Rightarrow> int \<Rightarrow> exn + bool" where
  "filterAcceptsRow rt self source_row =
     (case sourceModel self of
        None \<Rightarrow> Inr True
      | Some source_model \<Rightarrow> accepts_filters rt source_model source_row (filters self))"

text \<open>
  Modelled from the spec: \<open>visibleRowCount\<close>, the \<open>rowCount\<close> that the proxy inherits
  from Qt's \<open>QSortFilterProxyModel\<close>, is not code of the repository. It is the count of
  source rows currently passing all predicates.
\<close>

definition visibleRowCount :: "runtime \<Rightarrow> SortFilterProxyModel \<Rightarrow> nat" where
  "visibleRowCount rt self =
     (case sourceModel self of
        None \<Rightarrow> 0
      | Some m \<Rightarrow>
          length (filter (\<lambda>r. filterAcceptsRow rt self (int r) = Inr True) [0 ..< rowCount m]))"

text \<open>
  The claim's reading of the proxy. \<open>cellValue\<close> is the displayed string of a cell;
  a row satisfies an item of the specification when no header is the item's column
  name, or the cell under the first such header passes the item's predicate.
\<close>

definition header_labels :: "source_model \<Rightarrow> string list" where
  "header_labels m =
     (case m of
        PandasSource p \<Rightarrow> map pd_name (pd_data p)
      | PolarsSource p \<Rightarrow> map pl_name (pl_data p))"

definition cellValue :: "runtime \<Rightarrow> source_model \<Rightarrow> int \<Rightarrow> nat \<Rightarrow> str option" where
  "cellValue rt m row col =
     (case data rt m (index m row (int col)) DisplayRole of
        Inr v \<Rightarrow> str_or_None v
      | Inl e \<Rightarrow> None)"

fun first_index :: "'a list \<Rightarrow> 'a \<Rightarrow> nat option" where
  "first_index [] x = None"
| "first_index (y # ys) x = (if y = x then Some 0 else map_option Suc (first_index ys x))"

definition satisfies ::
  "runtime \<Rightarrow> source_model \<Rightarrow> int \<Rightarrow> string \<times> (string \<rightharpoonup> pyval) \<Rightarrow> bool" where
  "satisfies rt m row item =
     (case first_index (header_labels m) (fst item) of
        None \<Rightarrow> True
      | Some col \<Rightarrow> apply_filter rt (cellValue rt m row col) (snd item))"

text \<open>The data set invariant: every column has as many cells as the frame has rows.\<close>

definition rectangular :: "source_model \<Rightarrow> bool" where
  "rectangular m =
     (case m of
        PandasSource p \<Rightarrow>
          list_all (\<lambda>c. length (pd_cells (pd_series c)) = PandasTableModel_rowCount p) (pd_data p)
      | PolarsSource p \<Rightarrow>
          list_all (\<lambda>c. length (series_values (pl_series c)) = PolarsTableModel_rowCount p)
                   (pl_data p))"

section \<open>The filter dialog\<close>

text \<open>
  \<open>FilterDialog.init_ui\<close> chooses the predicate kind of a column from the string that
  \<open>get_column_dtype\<close> returns; a column with any other type gets no widget.
\<close>

definition FilterDialog_widget_type :: "string \<Rightarrow> string option" where
  "FilterDialog_widget_type dtype =
     (if dtype \<in> set [''int64'', ''float64'', ''int32'', ''float32''] then Some ''range''
      else if dtype = ''object'' then Some ''text''
      else if dtype = ''datetime64[ns]'' then Some ''date''
      else if dtype = ''bool'' then Some ''bool''
      else None)"

section \<open>Example data\<close>

text \<open>
  A fragment of the Unicode database, enough to run the models on text outside ASCII:
  the Arabic-Indic digits (U+0660 to U+0669) and the fullwidth digits (U+FF10 to U+FF19),
  the no-break space (U+00A0) and the ideographic space (U+3000), and the capital
  letters of the Cyrillic alphabet (U+0410 to U+042F), whose lower case lies 32 higher.
  \<open>repr\<close> is given for the whole numbers below 10. Outside the fragment it knows no
  digit, no white space and no letter, and \<open>repr\<close> gives a question mark; the
  examples below stay inside it.
\<close>

definition fragment_decimal :: "nat \<Rightarrow> nat option" where
  "fragment_decimal c =
     (if 1632 \<le> c \<and> c \<le> 1641 then Some (c - 1632)
      else if 65296 \<le> c \<and> c \<le> 65305 then Some (c - 65296)
      else None)"

definition fragment_lower :: "str \<Rightarrow> str" where
  "fragment_lower s =
     map (\<lambda>c. if (65 \<le> c \<and> c \<le> 90) \<or> (1040 \<le> c \<and> c \<le> 1071) then c + 32 else c) s"

definition fragment_repr :: "pyfloat \<Rightarrow> string" where
  "fragment_repr x =
     (case py_int x of
        Inr i \<Rightarrow> (if 0 \<le> i \<and> i < 10 \<and> float_of_int i = x then dec_digits (nat i) @ ''.0'' else ''?'')
      | Inl e \<Rightarrow> ''?'')"

definition unicode_fragment :: runtime where
  "unicode_fragment =
     \<lparr>decimal_of = fragment_decimal,
      is_white = (\<lambda>c. c = 160 \<or> c = 12288),
      lower_of = fragment_lower,
      repr_of = fragment_repr\<rparr>"

text \<open>
  Two stand-ins for the library's reorder, used to run the models on concrete frames: one
  that raises as the libraries do on incomparable keys, one that reverses the rows.
\<close>

definition raising_reorder :: "'f \<Rightarrow> string \<Rightarrow> bool \<Rightarrow> exn + 'f" where
  "raising_reorder frame by_name flag = Inl TypeError"

fun reverse_array :: "pd_series \<Rightarrow> pd_series" where
  "reverse_array (IntegerArray t xs) = IntegerArray t (rev xs)"
| "reverse_array (FloatingArray t xs) = FloatingArray t (rev xs)"
| "reverse_array (BoolArray xs) = BoolArray (rev xs)"
| "reverse_array (DatetimeArray xs) = DatetimeArray (rev xs)"
| "reverse_array (ObjectArray xs) = ObjectArray (rev xs)"

definition pd_reversing_reorder :: "pd_dataframe \<Rightarrow> string \<Rightarrow> bool \<Rightarrow> exn + pd_dataframe" where
  "pd_reversing_reorder frame by_name flag =
     Inr (map (\<lambda>c. c\<lparr>pd_series := reverse_array (pd_series c)\<rparr>) frame)"

fun reverse_series :: "pl_series \<Rightarrow> pl_series" where
  "reverse_series (IntSeries t xs) = IntSeries t (rev xs)"
| "reverse_series (FloatSeries t xs) = FloatSeries t (rev xs)"
| "reverse_series (BooleanSeries xs) = BooleanSeries (rev xs)"
| "reverse_series (Utf8Series xs) = Utf8Series (rev xs)"
| "reverse_series (DateSeries xs) = DateSeries (rev xs)"
| "reverse_series (DatetimeSeries xs) = DatetimeSeries (rev xs)"

definition pl_reversing_reorder :: "pl_dataframe \<Rightarrow> string \<Rightarrow> bool \<Rightarrow> exn + pl_dataframe" where
  "pl_reversing_reorder frame by_name flag =
     Inr (map (\<lambda>c. c\<lparr>pl_series := reverse_series (pl_series c)\<rparr>) frame)"

text \<open>
  A frame with one column \<open>k\<close> holding the number 1 in row 0 and text in row 1: an
  \<open>object\<close> column, which \<open>sort_values\<close> cannot order.
\<close>

definition pd_mixed :: PandasTableModel where
  "pd_mixed = \<lparr>pd_data = [\<lparr>pd_name = ''k'', pd_series = ObjectArray [PyInt 1, PyStr (lit ''a'')]\<rparr>],
               pd_trace = []\<rparr>"

definition pl_two_rows :: PolarsTableModel where
  "pl_two_rows = \<lparr>pl_data = [\<lparr>pl_name = ''k'', pl_series = IntSeries Int64 [Some 2, Some 1]\<rparr>],
                 pl_trace = []\<rparr>"

text \<open>
  The same five rows in both backends, with the columns of the generated test data:
  \<open>region\<close> (text), \<open>score\<close> (integers), \<open>active\<close> (booleans), \<open>flat\<close>, a column
  of equal numbers, and \<open>sales\<close> (floats: 0.5, 1234.5, 2.0, 2.0, 2.5).
\<close>

definition pd_example :: PandasTableModel where
  "pd_example =
     \<lparr>pd_data =
        [\<lparr>pd_name = ''region'',
          pd_series = ObjectArray [PyStr (lit ''North''), PyStr (lit ''South''),
                                  PyStr (lit ''East''), PyStr (lit ''West''),
                                  PyStr (lit ''North'')]\<rparr>,
         \<lparr>pd_name = ''score'', pd_series = IntegerArray np_int64 [3, 5, 7, 10, 12]\<rparr>,
         \<lparr>pd_name = ''active'', pd_series = BoolArray [True, False, True, False, True]\<rparr>,
         \<lparr>pd_name = ''flat'',
          pd_series = FloatingArray np_float64 [float_of_int 2, float_of_int 2, float_of_int 2,
                                               float_of_int 2, float_of_int 2]\<rparr>,
         \<lparr>pd_name = ''sales'',
          pd_series = FloatingArray np_float64 [round_ratio False 1 2, round_ratio False 12345 10,
                                               float_of_int 2, float_of_int 2,
                                               round_ratio False 5 2]\<rparr>],
      pd_trace = []\<rparr>"

definition pl_example :: PolarsTableModel where
  "pl_example =
     \<lparr>pl_data =
        [\<lparr>pl_name = ''region'',
          pl_series = Utf8Series [Some (lit ''North''), Some (lit ''South''), Some (lit ''East''),
                                 Some (lit ''West''), Some (lit ''North'')]\<rparr>,
         \<lparr>pl_name = ''score'',
          pl_series = IntSeries Int64 [Some 3, Some 5, Some 7, Some 10, Some 12]\<rparr>,
         \<lparr>pl_name = ''active'',
          pl_series = BooleanSeries [Some True, Some False, Some True, Some False, Some True]\<rparr>,
         \<lparr>pl_name = ''flat'',
          pl_series = FloatSeries Float64 [Some (float_of_int 2), Some (float_of_int 2),
                                         Some (float_of_int 2), Some (float_of_int 2),
                                         Some (float_of_int 2)]\<rparr>,
         \<lparr>pl_name = ''sales'',
          pl_series = FloatSeries Float64 [Some (round_ratio False 1 2),
                                         Some (round_ratio False 12345 10),
                                         Some (float_of_int 2), Some (float_of_int 2),
                                         Some (round_ratio False 5 2)]\<rparr>],
      pl_trace = []\<rparr>"

text \<open>
  An \<open>object\<close> column of Python numbers, as pandas builds it from the values 3, 1.0 and
  \<open>True\<close> next to a missing one.
\<close>

definition pd_objects :: PandasTableModel where
  "pd_objects =
     \<lparr>pd_data = [\<lparr>pd_name = ''n'',
                   pd_series = ObjectArray [PyInt 2, PyFloat (float_of_int 2), PyBool True,
                                            PyFloat NaN]\<rparr>],
      pd_trace = []\<rparr>"

text \<open>The models that \<open>PandasTableModel(None)\<close> and \<open>PolarsTableModel(None)\<close> build.\<close>

definition pd_empty :: PandasTableModel where
  "pd_empty = \<lparr>pd_data = [], pd_trace = []\<rparr>"

definition pl_empty :: PolarsTableModel where
  "pl_empty = \<lparr>pl_data = [], pl_trace = []\<rparr>"

definition score_5_10 :: "(string \<times> (string \<rightharpoonup> pyval)) list" where
  "score_5_10 = [(''score'', range_5_10), (''missing'', range_text_bound)]"

definition pl_proxy :: SortFilterProxyModel where
  "pl_proxy = \<lparr>sourceModel = Some (PolarsSource pl_example), filters = score_5_10\<rparr>"

definition pd_proxy :: SortFilterProxyModel where
  "pd_proxy = \<lparr>sourceModel = Some (PandasSource pd_example), filters = score_5_10\<rparr>"

definition pd_proxy_unfiltered :: SortFilterProxyModel where
  "pd_proxy_unfiltered = set_filters pd_proxy []"

definition detached_proxy :: SortFilterProxyModel where
  "detached_proxy = \<lparr>sourceModel = None, filters = score_5_10\<rparr>"

text \<open>
  The claim's "equivalent input data", cell by cell: the same datum as pandas and as
  polars hold it. A pandas NaN is a missing value, so its polars counterpart is null.
\<close>

fun same_datum :: "pd_value \<Rightarrow> pl_value \<Rightarrow> bool" where
  "same_datum (NpInteger i) (PlInt j) = (i = j)"
| "same_datum (NpFloating t x) (PlFloat y) = (x = y \<and> x \<noteq> NaN)"
| "same_datum (NpFloating t x) PlNone = (x = NaN)"
| "same_datum (NpBool b) (PlBool c) = (b = c)"
| "same_datum (Object (PyStr s)) (PlStr t) = (s = t)"
| "same_datum (Timestamp t) (PlDatetime u) = (t = u)"
| "same_datum NaT PlNone = True"
| "same_datum (Object PyNone) PlNone = True"
| "same_datum v w = False"

text \<open>
  Two cells with characters outside ASCII: the date 2024-03-15 with its year in fullwidth
  digits, and a date and a time with a no-break space between them.
\<close>

definition fullwidth_year_date :: str where
  "fullwidth_year_date = [65298, 65296, 65298, 65300] @ lit ''-03-15''"

definition no_break_space_datetime :: str where
  "no_break_space_datetime = lit ''2024-03-15'' @ [160] @ lit ''10:00:00''"


section \<open>Evaluation rules and auxiliary facts\<close>

lemmas fl_eval = round_ratio_def floor_log2_def scale2_def round_half_even_def Let_def
  bit_length.simps float_of_int_def signed_mantissa_def

lemmas str_eval = lit_def is_ascii_def is_ascii_digit_def to_decimal_def is_space_def
  Py_ISSPACE_def ascii_lower_def lower_def to_ascii_def strip_c_space_def remove_commas_def
  digitpart_def digits_value_def parse_number_def parse_exponent_def decimal_to_float_def
  parse_unsigned_float_def py_float_def py_str_def

lemmas filter_eval = apply_filter_def dict_get_def except_Exception_return_def except_return_def
  range_branch_def range_body_def text_branch_def date_branch_def date_body_def bool_branch_def
  py_chain_le_def lit_def

lemmas strptime_eval = strptime_def fmt_datetime_def fmt_iso_date_def fmt_dotted_date_def
  date_formats_def one_def group_value_def int_of_group_def valid_date_def days_in_month_def
  is_leap_def to_decimal_def is_ascii_digit_def is_space_def date_le_def lit_def

lemmas fragment_eval = unicode_fragment_def fragment_decimal_def fragment_lower_def
  fragment_repr_def

lemma lit_eq_iff [simp]: "lit a = lit b \<longleftrightarrow> a = b"
  by (simp add: lit_def inj_map_eq_map inj_on_def)

lemma parse_unsigned_float_raises: "parse_unsigned_float neg s = Inl e \<Longrightarrow> e = ValueError"
  by (auto simp: parse_unsigned_float_def split: if_splits option.splits prod.splits list.splits)

lemma py_float_raises: "py_float rt s = Inl e \<Longrightarrow> e = ValueError"
  by (auto simp: py_float_def split: list.splits if_splits dest: parse_unsigned_float_raises)

lemma py_le_raises: "py_le a b = Inl e \<Longrightarrow> e = TypeError"
  by (cases "(a, b)" rule: py_le.cases) (auto split: option.splits)

lemma py_le_number_float:
  "number_of a = Some lo \<Longrightarrow> py_le a (VFloat x) = Inr (float_le lo x)"
  by (cases a) simp_all

lemma py_le_float_number:
  "number_of b = Some hi \<Longrightarrow> py_le (VFloat x) b = Inr (float_le x hi)"
  by (cases b) simp_all

lemma py_chain_le_raises: "py_chain_le a b c = Inl e \<Longrightarrow> e = TypeError"
  by (auto simp: py_chain_le_def split: sum.splits if_splits dest: py_le_raises)

lemma range_body_raises:
  "range_body rt value min_val max_val = Inl e \<Longrightarrow> e = ValueError \<or> e = TypeError"
  by (auto simp: range_body_def split: sum.splits dest: py_float_raises py_chain_le_raises)

lemma date_body_raises:
  "date_body rt value date_from date_to = Inl e \<Longrightarrow> e = TypeError \<or> e = AttributeError"
  by (auto simp: date_body_def split: option.splits dest: py_chain_le_raises)

lemma float_le_minus_infinity: "x \<noteq> NaN \<Longrightarrow> float_le (Infinite True) x"
  by (cases x) simp_all

lemma float_le_plus_infinity: "x \<noteq> NaN \<Longrightarrow> float_le x (Infinite False)"
  by (cases x) simp_all

lemma float_le_NaN: "float_le x NaN = False"
  by (cases x) simp_all

lemma py_le_NaN: "py_le a (VFloat NaN) = Inr False \<or> py_le a (VFloat NaN) = Inl TypeError"
  by (cases a) (simp_all add: float_le_NaN)

lemma float_of_int_3: "float_of_int 3 = Finite False 6755399441055744 (- 51)"
  by (simp add: fl_eval)

lemma float_of_int_5: "float_of_int 5 = Finite False 5629499534213120 (- 50)"
  by (simp add: fl_eval)

lemma float_of_int_7: "float_of_int 7 = Finite False 7881299347898368 (- 50)"
  by (simp add: fl_eval)

lemma float_of_int_10: "float_of_int 10 = Finite False 5629499534213120 (- 49)"
  by (simp add: fl_eval)

lemma float_of_int_12: "float_of_int 12 = Finite False 6755399441055744 (- 49)"
  by (simp add: fl_eval)

lemmas small_floats = float_of_int_3 float_of_int_5 float_of_int_7 float_of_int_10
  float_of_int_12

lemma py_float_3: "py_float rt (lit ''3'') = Inr (float_of_int 3)"
  by (simp add: str_eval float_of_int_def)

lemma py_float_5: "py_float rt (lit ''5'') = Inr (float_of_int 5)"
  by (simp add: str_eval float_of_int_def)

lemma py_float_7: "py_float rt (lit ''7'') = Inr (float_of_int 7)"
  by (simp add: str_eval float_of_int_def)

lemma py_float_10: "py_float rt (lit ''10'') = Inr (float_of_int 10)"
  by (simp add: str_eval float_of_int_def)

lemma py_float_12: "py_float rt (lit ''12'') = Inr (float_of_int 12)"
  by (simp add: str_eval float_of_int_def)

lemma py_float_abc: "py_float rt (lit ''abc'') = Inl ValueError"
  by (simp add: str_eval)

lemma py_float_nan: "py_float rt (lit ''nan'') = Inr NaN"
  by (simp add: str_eval)

lemma py_float_grouped:
  "py_float rt (remove_commas (lit ''1,234.50'')) = Inr (round_ratio False 123450 100)"
  by (simp add: str_eval)

lemmas small_parses = py_float_3 py_float_5 py_float_7 py_float_10 py_float_12 py_float_abc
  py_float_nan

text \<open>
  \<open>float\<close> outside the digits and spaces of ASCII. The separators 28 to 31 are white
  space for \<open>str.isspace\<close> but not for \<open>float\<close>: \<open>float('\x1c7')\<close> raises. A digit
  of another script counts with its decimal value, and white space of Unicode is dropped
  at both ends: with the Arabic-Indic digit seven (U+0667), the fullwidth digits and the
  no-break space of the database, \<open>float\<close> gives 7.0, 7.0 and 10.0.
\<close>

lemma py_float_separator: "py_float rt [28, 55] = Inl ValueError"
  by (simp add: str_eval)

lemma py_float_unicode_digit:
  assumes "127 < c" and "\<not> is_white rt c" and "decimal_of rt c = Some 7"
  shows "py_float rt [c] = Inr (float_of_int 7)"
  using assms by (simp add: str_eval float_of_int_def)

lemma py_float_fragment:
  "py_float unicode_fragment [1639] = Inr (float_of_int 7)"
  "py_float unicode_fragment [160, 65303, 12288] = Inr (float_of_int 7)"
  "py_float unicode_fragment [65297, 65296] = Inr (float_of_int 10)"
  "py_float unicode_fragment [65297, 233] = Inl ValueError"
  by (simp_all add: str_eval fragment_eval float_of_int_def)

lemma range_5_10_on_parsed:
  "py_float rt (remove_commas s) = Inr x \<Longrightarrow>
   apply_filter rt (Some s) range_5_10
     = (float_le (float_of_int 5) x \<and> float_le x (float_of_int 10))"
  by (simp add: filter_eval range_5_10_def py_str_def)

lemma range_5_10_on_unparsed:
  "py_float rt (remove_commas s) = Inl e \<Longrightarrow> apply_filter rt (Some s) range_5_10 = False"
  by (auto simp: filter_eval range_5_10_def py_str_def dest: py_float_raises)

lemma remove_commas_plain:
  "remove_commas (lit ''3'') = lit ''3''" "remove_commas (lit ''5'') = lit ''5''"
  "remove_commas (lit ''7'') = lit ''7''" "remove_commas (lit ''10'') = lit ''10''"
  "remove_commas (lit ''12'') = lit ''12''" "remove_commas (lit ''abc'') = lit ''abc''"
  "remove_commas (lit ''nan'') = lit ''nan''" "remove_commas (lit ''1,0'') = lit ''10''"
  by (simp_all add: remove_commas_def lit_def)

lemma range_5_10_examples:
  "apply_filter rt (Some (lit ''3'')) range_5_10 = False"
  "apply_filter rt (Some (lit ''5'')) range_5_10 = True"
  "apply_filter rt (Some (lit ''7'')) range_5_10 = True"
  "apply_filter rt (Some (lit ''10'')) range_5_10 = True"
  "apply_filter rt (Some (lit ''12'')) range_5_10 = False"
  "apply_filter rt (Some (lit ''abc'')) range_5_10 = False"
  by (simp_all add: range_5_10_on_parsed range_5_10_on_unparsed remove_commas_plain small_parses
      small_floats scale2_def signed_mantissa_def)


section \<open>The range predicate\<close>

text \<open>
  C4. Under a \<open>range\<close> predicate whose bounds \<open>min\<close> and \<open>max\<close> are numbers (floats,
  as the filter dialog writes them, or integers), the displayed string is parsed as a
  float after its commas are removed; a string that does not parse is rejected (the
  evaluator returns \<open>False\<close>, it does not raise), and one that parses to \<open>x\<close> is
  accepted iff \<open>min <= x <= max\<close>, both bounds included. This holds for every cell
  value and with the Unicode database of any version. With \<open>min = 5\<close> and \<open>max = 10\<close>,
  of the displayed values 3, 5, 7, 10, 12 exactly 5, 7 and 10 are kept, and \<open>abc\<close> is
  rejected.
\<close>

theorem range_predicate_inclusive:
  assumes "filter_data ''type'' = Some (VStr (lit ''range''))"
    and "filter_data ''min'' = Some min_val" and "number_of min_val = Some lo"
    and "filter_data ''max'' = Some max_val" and "number_of max_val = Some hi"
  shows "apply_filter rt value filter_data =
           (case py_float rt (remove_commas (py_str value)) of
              Inl e \<Rightarrow> False
            | Inr x \<Rightarrow> float_le lo x \<and> float_le x hi)
       \<and> filter (\<lambda>s. apply_filter rt (Some s) range_5_10)
                [lit ''3'', lit ''5'', lit ''7'', lit ''10'', lit ''12'']
           = [lit ''5'', lit ''7'', lit ''10'']
       \<and> apply_filter rt (Some (lit ''abc'')) range_5_10 = False"
proof -
  have "apply_filter rt value filter_data =
           (case py_float rt (remove_commas (py_str value)) of
              Inl e \<Rightarrow> False
            | Inr x \<Rightarrow> float_le lo x \<and> float_le x hi)"
    using assms
    by (auto simp: filter_eval py_le_number_float py_le_float_number split: sum.splits
        dest: py_float_raises)
  moreover have "filter (\<lambda>s. apply_filter rt (Some s) range_5_10)
                [lit ''3'', lit ''5'', lit ''7'', lit ''10'', lit ''12'']
           = [lit ''5'', lit ''7'', lit ''10'']"
    by (simp add: range_5_10_examples)
  ultimately show ?thesis
    by (simp add: range_5_10_examples)
qed

theorem range_predicate_inclusive_witness:
  "range_5_10 ''type'' = Some (VStr (lit ''range''))
   \<and> range_5_10 ''min'' = Some (VFloat (float_of_int 5))
   \<and> number_of (VFloat (float_of_int 5)) = Some (float_of_int 5)
   \<and> range_5_10 ''max'' = Some (VFloat (float_of_int 10))
   \<and> number_of (VFloat (float_of_int 10)) = Some (float_of_int 10)
   \<and> py_float unicode_fragment (remove_commas (py_str (Some (lit ''1,0'')))) = Inr (float_of_int 10)
   \<and> apply_filter unicode_fragment (Some (lit ''1,0'')) range_5_10 = True
   \<and> py_float unicode_fragment (remove_commas (py_str (Some [1639]))) = Inr (float_of_int 7)
   \<and> apply_filter unicode_fragment (Some [1639]) range_5_10 = True
   \<and> py_float unicode_fragment (remove_commas (py_str (Some [28, 55]))) = Inl ValueError
   \<and> apply_filter unicode_fragment (Some [28, 55]) range_5_10 = False
   \<and> py_float unicode_fragment (remove_commas (py_str None)) = Inl ValueError
   \<and> apply_filter unicode_fragment None range_5_10 = False"
proof -
  have d: "range_5_10 ''type'' = Some (VStr (lit ''range''))"
    "range_5_10 ''min'' = Some (VFloat (float_of_int 5))"
    "number_of (VFloat (float_of_int 5)) = Some (float_of_int 5)"
    "range_5_10 ''max'' = Some (VFloat (float_of_int 10))"
    "number_of (VFloat (float_of_int 10)) = Some (float_of_int 10)"
    by (simp_all add: range_5_10_def)
  have p: "py_float unicode_fragment (remove_commas (py_str (Some (lit ''1,0''))))
             = Inr (float_of_int 10)"
    "py_float unicode_fragment (remove_commas (py_str (Some [1639]))) = Inr (float_of_int 7)"
    "py_float unicode_fragment (remove_commas (py_str (Some [28, 55]))) = Inl ValueError"
    "py_float unicode_fragment (remove_commas (py_str None)) = Inl ValueError"
    by (simp_all add: str_eval fragment_eval float_of_int_def)
  show ?thesis
    using range_predicate_inclusive [OF d, of unicode_fragment "Some (lit ''1,0'')"]
      range_predicate_inclusive [OF d, of unicode_fragment "Some [1639]"]
      range_predicate_inclusive [OF d, of unicode_fragment "Some [28, 55]"]
      range_predicate_inclusive [OF d, of unicode_fragment None]
    by (simp add: d p small_floats scale2_def signed_mantissa_def)
qed

text \<open>
  C10, as stated, fails on the parsable value \<open>nan\<close>: \<open>float("nan")\<close> succeeds, and with
  neither bound given the row is still rejected, because \<open>-inf <= nan\<close> is false.
\<close>

theorem absent_bound_counterexample:
  "py_float unicode_fragment (remove_commas (py_str (Some (lit ''nan'')))) = Inr NaN
   \<and> range_unbounded ''min'' = None \<and> range_unbounded ''max'' = None
   \<and> apply_filter unicode_fragment (Some (lit ''nan'')) range_unbounded = False"
proof -
  have "py_float unicode_fragment (remove_commas (py_str (Some (lit ''nan'')))) = Inr NaN"
    by (simp add: py_str_def remove_commas_plain py_float_nan)
  moreover from this
  have "apply_filter unicode_fragment (Some (lit ''nan'')) range_unbounded = False"
    by (simp add: apply_filter_def range_branch_def range_body_def py_chain_le_def dict_get_def
        except_Exception_return_def except_return_def range_unbounded_def)
  ultimately show ?thesis
    by (simp add: range_unbounded_def)
qed

text \<open>
  C10, amended. A \<open>range\<close> descriptor without \<open>min\<close> is evaluated with \<open>min = -inf\<close>,
  one without \<open>max\<close> with \<open>max = +inf\<close>. For a value that parses to a number other
  than NaN the absent bound imposes no constraint: without \<open>min\<close> the row is accepted iff
  the value is \<open><= max\<close>, without \<open>max\<close> iff \<open>min <=\<close> the value (a bound that cannot
  be compared with a float rejects the row), and with neither it is accepted. A value
  that parses to NaN is rejected, whatever the bounds and whether or not they are given.
\<close>

theorem absent_bound_is_infinite:
  assumes "filter_data ''type'' = Some (VStr (lit ''range''))"
    and "py_float rt (remove_commas (py_str value)) = Inr x"
  shows "(filter_data ''min'' = None \<longrightarrow>
            dict_get filter_data ''min'' (VFloat (Infinite True)) = VFloat (Infinite True))
       \<and> (filter_data ''max'' = None \<longrightarrow>
            dict_get filter_data ''max'' (VFloat (Infinite False)) = VFloat (Infinite False))
       \<and> (x \<noteq> NaN \<and> filter_data ''min'' = None \<longrightarrow>
            apply_filter rt value filter_data =
              (case py_le (VFloat x) (dict_get filter_data ''max'' (VFloat (Infinite False))) of
                 Inr b \<Rightarrow> b | Inl e \<Rightarrow> False))
       \<and> (x \<noteq> NaN \<and> filter_data ''max'' = None \<longrightarrow>
            apply_filter rt value filter_data =
              (case py_le (dict_get filter_data ''min'' (VFloat (Infinite True))) (VFloat x) of
                 Inr b \<Rightarrow> b | Inl e \<Rightarrow> False))
       \<and> (x \<noteq> NaN \<and> filter_data ''min'' = None \<and> filter_data ''max'' = None \<longrightarrow>
            apply_filter rt value filter_data = True)
       \<and> (x = NaN \<longrightarrow> apply_filter rt value filter_data = False)"
proof -
  have no_min: "dict_get filter_data ''min'' (VFloat (Infinite True)) = VFloat (Infinite True)"
    if "filter_data ''min'' = None"
    using that by (simp add: dict_get_def)
  have no_max: "dict_get filter_data ''max'' (VFloat (Infinite False)) = VFloat (Infinite False)"
    if "filter_data ''max'' = None"
    using that by (simp add: dict_get_def)
  have below: "apply_filter rt value filter_data =
      (case py_le (VFloat x) (dict_get filter_data ''max'' (VFloat (Infinite False))) of
         Inr b \<Rightarrow> b | Inl e \<Rightarrow> False)"
    if "x \<noteq> NaN" and "filter_data ''min'' = None"
    using that assms
    by (auto simp: filter_eval float_le_minus_infinity split: sum.splits option.splits)
  have above: "apply_filter rt value filter_data =
      (case py_le (dict_get filter_data ''min'' (VFloat (Infinite True))) (VFloat x) of
         Inr b \<Rightarrow> b | Inl e \<Rightarrow> False)"
    if "x \<noteq> NaN" and "filter_data ''max'' = None"
    using that assms
    by (auto simp: filter_eval float_le_plus_infinity split: sum.splits option.splits)
  have neither: "apply_filter rt value filter_data = True"
    if "x \<noteq> NaN" and "filter_data ''min'' = None" and "filter_data ''max'' = None"
    using that assms
    by (simp add: filter_eval float_le_minus_infinity float_le_plus_infinity)
  have nan: "apply_filter rt value filter_data = False" if "x = NaN"
  proof -
    have "range_body rt value a b = Inr False \<or> range_body rt value a b = Inl TypeError" for a b
      using assms(2) that py_le_NaN [of a] by (auto simp: range_body_def py_chain_le_def)
    from this [of "dict_get filter_data ''min'' (VFloat (Infinite True))"
        "dict_get filter_data ''max'' (VFloat (Infinite False))"]
    have "range_branch rt value filter_data = Inr False"
      by (auto simp: range_branch_def Let_def except_return_def)
    with assms(1) show ?thesis
      by (simp add: apply_filter_def dict_get_def except_Exception_return_def)
  qed
  show ?thesis
    using no_min no_max below above neither nan by blast
qed

theorem absent_bound_is_infinite_witness:
  "range_unbounded ''type'' = Some (VStr (lit ''range''))
   \<and> py_float unicode_fragment (remove_commas (py_str (Some (lit ''12'')))) = Inr (float_of_int 12)
   \<and> float_of_int 12 \<noteq> NaN
   \<and> range_unbounded ''min'' = None \<and> range_unbounded ''max'' = None
   \<and> apply_filter unicode_fragment (Some (lit ''12'')) range_unbounded = True
   \<and> range_5_10 ''type'' = Some (VStr (lit ''range''))
   \<and> py_float unicode_fragment (remove_commas (py_str (Some (lit ''nan'')))) = Inr NaN
   \<and> apply_filter unicode_fragment (Some (lit ''nan'')) range_5_10 = False"
proof -
  have d: "range_unbounded ''type'' = Some (VStr (lit ''range''))"
    "range_5_10 ''type'' = Some (VStr (lit ''range''))"
    "range_unbounded ''min'' = None" "range_unbounded ''max'' = None"
    by (simp_all add: range_unbounded_def range_5_10_def)
  have p: "py_float unicode_fragment (remove_commas (py_str (Some (lit ''12''))))
             = Inr (float_of_int 12)"
    "py_float unicode_fragment (remove_commas (py_str (Some (lit ''nan'')))) = Inr NaN"
    by (simp_all add: py_str_def remove_commas_plain py_float_12 py_float_nan)
  show ?thesis
    using absent_bound_is_infinite [of range_unbounded unicode_fragment "Some (lit ''12'')"
        "float_of_int 12"]
      absent_bound_is_infinite [of range_5_10 unicode_fragment "Some (lit ''nan'')" NaN]
    by (simp add: d p float_of_int_12)
qed


section \<open>Failure handling of the evaluator\<close>

text \<open>
  C5, as stated, fails. Under a \<open>range\<close> predicate whose \<open>min\<close> is the string \<open>5\<close>,
  the cell \<open>7\<close> parses, and the comparison \<open>'5' <= 7.0\<close> raises \<open>TypeError\<close>: an
  exception that is not a parse failure. The inner handler catches it and the row is
  excluded, not retained. The same happens under a \<open>date\<close> predicate without \<open>from\<close>.
\<close>

theorem failure_asymmetry_counterexample:
  "py_float unicode_fragment (remove_commas (py_str (Some (lit ''7'')))) = Inr (float_of_int 7)
   \<and> range_body unicode_fragment (Some (lit ''7'')) (VStr (lit ''5'')) (VFloat (Infinite False)) = Inl TypeError
   \<and> apply_filter unicode_fragment (Some (lit ''7'')) range_text_bound = False
   \<and> first_parse unicode_fragment (lit ''2024-03-15'') date_formats = Some (Datetime (Date 2024 3 15) 0 0 0)
   \<and> date_body unicode_fragment (Some (lit ''2024-03-15'')) VNone (VDate (Date 2024 3 31)) = Inl TypeError
   \<and> apply_filter unicode_fragment (Some (lit ''2024-03-15'')) date_no_from = False"
proof -
  have "py_float unicode_fragment (remove_commas (py_str (Some (lit ''7'')))) = Inr (float_of_int 7)"
    by (simp add: py_str_def remove_commas_plain py_float_7)
  moreover from this
  have "range_body unicode_fragment (Some (lit ''7'')) (VStr (lit ''5'')) (VFloat (Infinite False))
          = Inl TypeError"
    "apply_filter unicode_fragment (Some (lit ''7'')) range_text_bound = False"
    by (simp_all add: apply_filter_def range_branch_def range_body_def py_chain_le_def
        dict_get_def except_Exception_return_def except_return_def range_text_bound_def)
  moreover have "first_parse unicode_fragment (lit ''2024-03-15'') date_formats
          = Some (Datetime (Date 2024 3 15) 0 0 0)"
    by (simp add: strptime_eval)
  moreover from this
  have "date_body unicode_fragment (Some (lit ''2024-03-15'')) VNone (VDate (Date 2024 3 31))
          = Inl TypeError"
    "apply_filter unicode_fragment (Some (lit ''2024-03-15'')) date_no_from = False"
    by (simp_all add: apply_filter_def date_branch_def date_body_def py_chain_le_def
        dict_get_def except_Exception_return_def except_return_def date_no_from_def)
  ultimately show ?thesis
    by simp
qed

text \<open>
  C5, amended. Under a \<open>range\<close> or a \<open>date\<close> predicate every exception raised inside
  the inner \<open>try\<close> excludes the row: a parse failure of the cell's value, and also the
  \<open>TypeError\<close> of a comparison with an absent or ill-typed bound and the
  \<open>AttributeError\<close> of a cell that is \<open>None\<close>; nothing else is raised there. An
  exception raised outside the inner handlers retains the row: that is the \<open>text\<close>
  predicate, when its search value is not a string.
\<close>

theorem failure_policy:
  "(filter_data ''type'' = Some (VStr (lit ''range'')) \<and>
      range_body rt value (dict_get filter_data ''min'' (VFloat (Infinite True)))
                       (dict_get filter_data ''max'' (VFloat (Infinite False))) = Inl e
    \<longrightarrow> (e = ValueError \<or> e = TypeError) \<and> apply_filter rt value filter_data = False)
   \<and> (filter_data ''type'' = Some (VStr (lit ''range'')) \<and>
      py_float rt (remove_commas (py_str value)) = Inl e
    \<longrightarrow> apply_filter rt value filter_data = False)
   \<and> (filter_data ''type'' = Some (VStr (lit ''date'')) \<and>
      date_body rt value (dict_get filter_data ''from'' VNone) (dict_get filter_data ''to'' VNone)
        = Inl e
    \<longrightarrow> (e = TypeError \<or> e = AttributeError) \<and> apply_filter rt value filter_data = False)
   \<and> (filter_data ''type'' = Some (VStr (lit ''date'')) \<and> value = Some s \<and>
      first_parse rt s date_formats = None
    \<longrightarrow> apply_filter rt value filter_data = False)
   \<and> (filter_data ''type'' = Some (VStr (lit ''text'')) \<and> text_branch rt value filter_data = Inl e
    \<longrightarrow> apply_filter rt value filter_data = True)
   \<and> (filter_data ''type'' = Some (VStr (lit ''bool'')) \<longrightarrow> bool_branch rt value filter_data \<noteq> Inl e)"
proof -
  have range_inner: "(e = ValueError \<or> e = TypeError) \<and> apply_filter rt value filter_data = False"
    if "filter_data ''type'' = Some (VStr (lit ''range''))"
      and "range_body rt value (dict_get filter_data ''min'' (VFloat (Infinite True)))
             (dict_get filter_data ''max'' (VFloat (Infinite False))) = Inl e"
  proof -
    from that(2) have "e = ValueError \<or> e = TypeError"
      by (rule range_body_raises)
    with that show ?thesis
      by (auto simp: apply_filter_def range_branch_def except_return_def
          except_Exception_return_def dict_get_def Let_def)
  qed
  have range_parse: "apply_filter rt value filter_data = False"
    if "filter_data ''type'' = Some (VStr (lit ''range''))"
      and "py_float rt (remove_commas (py_str value)) = Inl e"
  proof -
    from that(2) have "e = ValueError"
      by (rule py_float_raises)
    with that show ?thesis
      by (simp add: filter_eval)
  qed
  have date_inner: "(e = TypeError \<or> e = AttributeError) \<and> apply_filter rt value filter_data = False"
    if "filter_data ''type'' = Some (VStr (lit ''date''))"
      and "date_body rt value (dict_get filter_data ''from'' VNone)
             (dict_get filter_data ''to'' VNone) = Inl e"
  proof -
    from that(2) have "e = TypeError \<or> e = AttributeError"
      by (rule date_body_raises)
    with that show ?thesis
      by (auto simp: apply_filter_def date_branch_def except_return_def
          except_Exception_return_def dict_get_def Let_def)
  qed
  have date_parse: "apply_filter rt value filter_data = False"
    if "filter_data ''type'' = Some (VStr (lit ''date''))" and "value = Some s"
      and "first_parse rt s date_formats = None"
    using that by (simp add: filter_eval)
  have text_outer: "apply_filter rt value filter_data = True"
    if "filter_data ''type'' = Some (VStr (lit ''text''))" and "text_branch rt value filter_data = Inl e"
    using that by (simp add: apply_filter_def except_Exception_return_def dict_get_def)
  have bool_total: "bool_branch rt value filter_data \<noteq> Inl e"
    by (simp add: bool_branch_def Let_def)
  show ?thesis
    using range_inner range_parse date_inner date_parse text_outer bool_total by blast
qed

theorem failure_policy_witness:
  "range_body unicode_fragment (Some (lit ''7'')) (dict_get range_text_bound ''min'' (VFloat (Infinite True)))
        (dict_get range_text_bound ''max'' (VFloat (Infinite False))) = Inl TypeError
   \<and> apply_filter unicode_fragment (Some (lit ''7'')) range_text_bound = False
   \<and> py_float unicode_fragment (remove_commas (py_str (Some (lit ''abc'')))) = Inl ValueError
   \<and> apply_filter unicode_fragment (Some (lit ''abc'')) range_5_10 = False
   \<and> date_body unicode_fragment None (dict_get date_march_2024 ''from'' VNone)
        (dict_get date_march_2024 ''to'' VNone) = Inl AttributeError
   \<and> apply_filter unicode_fragment None date_march_2024 = False
   \<and> first_parse unicode_fragment (lit ''15/03/2024'') date_formats = None
   \<and> apply_filter unicode_fragment (Some (lit ''15/03/2024'')) date_march_2024 = False
   \<and> text_branch unicode_fragment (Some (lit ''South'')) text_number_sought = Inl AttributeError
   \<and> apply_filter unicode_fragment (Some (lit ''South'')) text_number_sought = True"
proof -
  have r: "range_text_bound ''type'' = Some (VStr (lit ''range''))"
    and r': "range_5_10 ''type'' = Some (VStr (lit ''range''))"
    and d: "date_march_2024 ''type'' = Some (VStr (lit ''date''))"
    and t: "text_number_sought ''type'' = Some (VStr (lit ''text''))"
    by (simp_all add: range_text_bound_def range_5_10_def date_march_2024_def
        text_number_sought_def)
  have 1: "range_body unicode_fragment (Some (lit ''7'')) (dict_get range_text_bound ''min'' (VFloat (Infinite True)))
        (dict_get range_text_bound ''max'' (VFloat (Infinite False))) = Inl TypeError"
    by (simp add: range_body_def dict_get_def range_text_bound_def py_str_def remove_commas_plain
        py_float_7 py_chain_le_def)
  have 2: "py_float unicode_fragment (remove_commas (py_str (Some (lit ''abc'')))) = Inl ValueError"
    by (simp add: py_str_def remove_commas_plain py_float_abc)
  have 3: "date_body unicode_fragment None (dict_get date_march_2024 ''from'' VNone)
        (dict_get date_march_2024 ''to'' VNone) = Inl AttributeError"
    by (simp add: date_body_def)
  have 4: "first_parse unicode_fragment (lit ''15/03/2024'') date_formats = None"
    by (simp add: strptime_eval)
  have 5: "text_branch unicode_fragment (Some (lit ''South'')) text_number_sought = Inl AttributeError"
    by (simp add: text_branch_def dict_get_def text_number_sought_def)
  show ?thesis
    using failure_policy [of range_text_bound unicode_fragment "Some (lit ''7'')" TypeError] r 1
      failure_policy [of range_5_10 unicode_fragment "Some (lit ''abc'')" ValueError] r' 2
      failure_policy [of date_march_2024 unicode_fragment None AttributeError] d 3
      failure_policy [of date_march_2024 unicode_fragment "Some (lit ''15/03/2024'')" e
          "lit ''15/03/2024''" for e] 4
      failure_policy [of text_number_sought unicode_fragment "Some (lit ''South'')"
          AttributeError] t 5
    by simp
qed

section \<open>The date predicate\<close>

lemma strptime_examples:
  "strptime rt (lit ''31.03.2024'') fmt_datetime = Inl ValueError"
  "strptime rt (lit ''31.03.2024'') fmt_iso_date = Inl ValueError"
  "strptime rt (lit ''31.03.2024'') fmt_dotted_date = Inr (Datetime (Date 2024 3 31) 0 0 0)"
  "strptime rt (lit ''2024-03-01 23:59:59'') fmt_datetime = Inr (Datetime (Date 2024 3 1) 23 59 59)"
  "strptime rt (lit ''2024-04-01'') fmt_datetime = Inl ValueError"
  "strptime rt (lit ''2024-04-01'') fmt_iso_date = Inr (Datetime (Date 2024 4 1) 0 0 0)"
  "strptime rt (lit ''March 1st'') fmt_datetime = Inl ValueError"
  "strptime rt (lit ''March 1st'') fmt_iso_date = Inl ValueError"
  "strptime rt (lit ''March 1st'') fmt_dotted_date = Inl ValueError"
  by (simp_all add: strptime_eval)

text \<open>
  Outside ASCII: a year written with fullwidth digits, and a no-break space between the
  date and the time, parse as \<open>datetime.strptime\<close> parses them.
\<close>

lemma strptime_fragment:
  "strptime unicode_fragment fullwidth_year_date fmt_datetime = Inl ValueError"
  "strptime unicode_fragment fullwidth_year_date fmt_iso_date
     = Inr (Datetime (Date 2024 3 15) 0 0 0)"
  "strptime unicode_fragment no_break_space_datetime fmt_datetime
     = Inr (Datetime (Date 2024 3 15) 10 0 0)"
  by (simp_all add: strptime_eval fragment_eval fullwidth_year_date_def
      no_break_space_datetime_def)

text \<open>
  C7. Under a \<open>date\<close> predicate whose bounds \<open>from\<close> and \<open>to\<close> are dates, a string
  cell is parsed with \<open>%Y-%m-%d %H:%M:%S\<close>, then \<open>%Y-%m-%d\<close>, then \<open>%d.%m.%Y\<close>, and
  the first format that parses decides: the row is accepted iff
  \<open>from <= parsed.date() <= to\<close>, both bounds included and the time of day ignored.
  When no format parses, the row is excluded. This holds for every string, with the
  Unicode database of any version: the digits of a date may be those of any script, and
  the white space between date and time any white space.
\<close>

theorem date_predicate_first_format_wins:
  assumes "filter_data ''type'' = Some (VStr (lit ''date''))"
    and "filter_data ''from'' = Some (VDate date_from)"
    and "filter_data ''to'' = Some (VDate date_to)"
  shows "apply_filter rt (Some s) filter_data =
     (case strptime rt s fmt_datetime of
        Inr t \<Rightarrow> date_le date_from (date_part t) \<and> date_le (date_part t) date_to
      | Inl e1 \<Rightarrow>
         (case strptime rt s fmt_iso_date of
            Inr t \<Rightarrow> date_le date_from (date_part t) \<and> date_le (date_part t) date_to
          | Inl e2 \<Rightarrow>
             (case strptime rt s fmt_dotted_date of
                Inr t \<Rightarrow> date_le date_from (date_part t) \<and> date_le (date_part t) date_to
              | Inl e3 \<Rightarrow> False)))"
  using assms
  by (simp add: filter_eval date_formats_def split: sum.splits)

theorem date_predicate_first_format_wins_witness:
  "date_march_2024 ''type'' = Some (VStr (lit ''date''))
   \<and> date_march_2024 ''from'' = Some (VDate (Date 2024 3 1))
   \<and> date_march_2024 ''to'' = Some (VDate (Date 2024 3 31))
   \<and> strptime unicode_fragment (lit ''31.03.2024'') fmt_datetime = Inl ValueError
   \<and> strptime unicode_fragment (lit ''31.03.2024'') fmt_iso_date = Inl ValueError
   \<and> strptime unicode_fragment (lit ''31.03.2024'') fmt_dotted_date
       = Inr (Datetime (Date 2024 3 31) 0 0 0)
   \<and> apply_filter unicode_fragment (Some (lit ''31.03.2024'')) date_march_2024 = True
   \<and> strptime unicode_fragment (lit ''2024-03-01 23:59:59'') fmt_datetime
       = Inr (Datetime (Date 2024 3 1) 23 59 59)
   \<and> apply_filter unicode_fragment (Some (lit ''2024-03-01 23:59:59'')) date_march_2024 = True
   \<and> apply_filter unicode_fragment (Some (lit ''2024-04-01'')) date_march_2024 = False
   \<and> apply_filter unicode_fragment (Some (lit ''March 1st'')) date_march_2024 = False
   \<and> strptime unicode_fragment fullwidth_year_date fmt_datetime = Inl ValueError
   \<and> strptime unicode_fragment fullwidth_year_date fmt_iso_date
       = Inr (Datetime (Date 2024 3 15) 0 0 0)
   \<and> apply_filter unicode_fragment (Some fullwidth_year_date) date_march_2024 = True
   \<and> strptime unicode_fragment no_break_space_datetime fmt_datetime
       = Inr (Datetime (Date 2024 3 15) 10 0 0)
   \<and> apply_filter unicode_fragment (Some no_break_space_datetime) date_march_2024 = True"
proof -
  have d: "date_march_2024 ''type'' = Some (VStr (lit ''date''))"
    "date_march_2024 ''from'' = Some (VDate (Date 2024 3 1))"
    "date_march_2024 ''to'' = Some (VDate (Date 2024 3 31))"
    by (simp_all add: date_march_2024_def)
  note p = strptime_examples [of unicode_fragment] strptime_fragment
  show ?thesis
    using date_predicate_first_format_wins [OF d, of unicode_fragment "lit ''31.03.2024''"]
      date_predicate_first_format_wins [OF d, of unicode_fragment "lit ''2024-03-01 23:59:59''"]
      date_predicate_first_format_wins [OF d, of unicode_fragment "lit ''2024-04-01''"]
      date_predicate_first_format_wins [OF d, of unicode_fragment "lit ''March 1st''"]
      date_predicate_first_format_wins [OF d, of unicode_fragment fullwidth_year_date]
      date_predicate_first_format_wins [OF d, of unicode_fragment no_break_space_datetime]
    by (simp add: d p date_le_def)
qed

section \<open>The filter proxy accepts a row iff every predicate holds\<close>

lemma headerData_in_range:
  "i < columnCount m \<Longrightarrow> headerData m (int i) Horizontal = Inr (header_labels m ! i)"
  by (cases m)
     (simp_all add: PandasTableModel_headerData_def PolarsTableModel_headerData_def
        PandasTableModel_columnCount_def PolarsTableModel_columnCount_def py_index_def
        header_labels_def)

lemma length_header_labels: "length (header_labels m) = columnCount m"
  by (cases m)
     (simp_all add: header_labels_def PandasTableModel_columnCount_def
        PolarsTableModel_columnCount_def)

lemma find_column_find:
  "\<forall>i \<in> set js. i < columnCount m \<Longrightarrow>
   find_column m col_name js =
     Inr (case find (\<lambda>i. header_labels m ! i = col_name) js of
            None \<Rightarrow> - 1 | Some i \<Rightarrow> int i)"
  by (induction js) (simp_all add: headerData_in_range)

lemma find_mapped: "find P (map f xs) = map_option f (find (\<lambda>x. P (f x)) xs)"
  by (induction xs) simp_all

lemma find_upt_first_index:
  "find (\<lambda>i. ls ! i = x) [0 ..< length ls] = first_index ls x"
proof (induction ls)
  case Nil
  then show ?case by simp
next
  case (Cons y ys)
  have "[0 ..< length (y # ys)] = 0 # map Suc [0 ..< length ys]"
    by (simp add: upt_conv_Cons map_Suc_upt del: upt_Suc)
  then show ?case
    using Cons by (simp add: find_mapped del: upt_Suc)
qed

lemma find_column_first_index:
  "find_column m col_name [0 ..< columnCount m] =
     Inr (case first_index (header_labels m) col_name of None \<Rightarrow> - 1 | Some i \<Rightarrow> int i)"
  using find_column_find [of "[0 ..< columnCount m]" m col_name]
    find_upt_first_index [of "header_labels m" col_name]
  by (simp add: length_header_labels)

lemma first_index_less: "first_index ls x = Some i \<Longrightarrow> i < length ls"
  by (induction ls arbitrary: i) (auto split: if_splits)

lemma pl_display_typed:
  "r < length (series_values s) \<Longrightarrow>
   \<exists>str. pl_display rt (series_dtype s) (series_values s ! r) = Inr str"
  by (cases s) (auto simp: pl_display_def py_value_def split: option.splits)

lemma pandas_display_total:
  assumes "rectangular (PandasSource p)"
  shows "\<exists>v. PandasTableModel_data rt p (index (PandasSource p) row col) DisplayRole = Inr v"
proof (cases "index (PandasSource p) row col")
  case InvalidIndex
  then show ?thesis by (simp add: PandasTableModel_data_def)
next
  case (ModelIndex r c)
  then have rc: "r < PandasTableModel_rowCount p" "c < length (pd_data p)"
    by (auto simp: index_def PandasTableModel_columnCount_def split: if_splits)
  with assms have "length (pd_cells (pd_series (pd_data p ! c))) = PandasTableModel_rowCount p"
    by (simp add: rectangular_def list_all_length)
  with rc ModelIndex show ?thesis
    by (simp add: PandasTableModel_data_def pd_iloc_def)
qed

lemma polars_display_total:
  assumes "rectangular (PolarsSource p)"
  shows "\<exists>v. PolarsTableModel_data rt p (index (PolarsSource p) row col) DisplayRole = Inr v"
proof (cases "index (PolarsSource p) row col")
  case InvalidIndex
  then show ?thesis by (simp add: PolarsTableModel_data_def)
next
  case (ModelIndex r c)
  then have rc: "r < PolarsTableModel_rowCount p" "c < length (pl_data p)"
    by (auto simp: index_def PolarsTableModel_columnCount_def split: if_splits)
  with assms have len: "length (series_values (pl_series (pl_data p ! c))) = PolarsTableModel_rowCount p"
    by (simp add: rectangular_def list_all_length)
  with rc obtain str where
    "pl_display rt (series_dtype (pl_series (pl_data p ! c)))
       (series_values (pl_series (pl_data p ! c)) ! r) = Inr str"
    using pl_display_typed [of r "pl_series (pl_data p ! c)"] by auto
  with rc len ModelIndex show ?thesis
    by (simp add: PolarsTableModel_data_def pl_cell_def PolarsTableModel_columnCount_def)
qed

lemma display_total:
  "rectangular m \<Longrightarrow> \<exists>v. data rt m (index m row col) DisplayRole = Inr v"
  by (cases m) (simp_all add: pandas_display_total polars_display_total)

lemma accepts_filters_all:
  assumes "rectangular m"
  shows "accepts_filters rt m row spec = Inr (list_all (satisfies rt m row) spec)"
proof (induction spec)
  case Nil
  then show ?case by simp
next
  case (Cons item spec)
  obtain col_name filter_data where item: "item = (col_name, filter_data)"
    by (cases item)
  show ?case
  proof (cases "first_index (header_labels m) col_name")
    case None
    with Cons item show ?thesis
      by (simp add: find_column_first_index satisfies_def)
  next
    case (Some i)
    obtain v where v: "data rt m (index m row (int i)) DisplayRole = Inr v"
      using display_total [OF assms] by blast
    with Some Cons item show ?thesis
      by (simp add: find_column_first_index satisfies_def cellValue_def)
  qed
qed

text \<open>
  C2. With a source model whose columns all have the frame's row count, the proxy accepts
  a source row iff the row satisfies every item of the filter specification: an item
  whose column name is no header label is satisfied by every row, any other by the rows
  whose displayed cell under the first such header passes \<open>apply_filter\<close>. With an
  empty specification every row is accepted and the visible row count is the source
  model's \<open>rowCount\<close>. Without a source model every row is accepted.
\<close>

theorem filter_accepts_iff_all_predicates:
  "(sourceModel proxy = Some m \<and> rectangular m \<longrightarrow>
      filterAcceptsRow rt proxy row = Inr (list_all (satisfies rt m row) (filters proxy)))
   \<and> (sourceModel proxy = Some m \<and> rectangular m \<and> filters proxy = [] \<longrightarrow>
      filterAcceptsRow rt proxy row = Inr True \<and> visibleRowCount rt proxy = rowCount m)
   \<and> (sourceModel proxy = None \<longrightarrow> filterAcceptsRow rt proxy row = Inr True)"
proof -
  have general: "filterAcceptsRow rt proxy r = Inr (list_all (satisfies rt m r) (filters proxy))"
    if "sourceModel proxy = Some m" and "rectangular m" for r
    using that by (simp add: filterAcceptsRow_def accepts_filters_all)
  have empty: "filterAcceptsRow rt proxy row = Inr True \<and> visibleRowCount rt proxy = rowCount m"
    if "sourceModel proxy = Some m" and "rectangular m" and "filters proxy = []"
    using that general by (simp add: visibleRowCount_def)
  have unset: "filterAcceptsRow rt proxy row = Inr True" if "sourceModel proxy = None"
    using that by (simp add: filterAcceptsRow_def)
  show ?thesis
    using general empty unset by blast
qed

lemmas fmt_eval = format_int_grouped_def format_float_grouped_2f_def grouped.simps
  dec_digits.simps zero_pad_def digit_char_def str_of_int_def

lemmas model_eval = PandasTableModel_data_def PolarsTableModel_data_def index_def
  PandasTableModel_rowCount_def PandasTableModel_columnCount_def PolarsTableModel_rowCount_def
  PolarsTableModel_columnCount_def pd_iloc_def pl_cell_def pd_display_def pl_display_def
  py_value_def cellValue_def str_or_None_def header_labels_def satisfies_def
  rectangular_def

lemma pl_example_score:
  "map (\<lambda>r. cellValue rt (PolarsSource pl_example) r 1) [0, 1, 2, 3, 4]
     = [Some (lit ''3''), Some (lit ''5''), Some (lit ''7''), Some (lit ''10''), Some (lit ''12'')]"
  by (simp add: model_eval pl_example_def fmt_eval)

lemma pd_example_score:
  "map (\<lambda>r. cellValue rt (PandasSource pd_example) r 1) [0, 1, 2, 3, 4]
     = [Some (lit ''3''), Some (lit ''5''), Some (lit ''7''), Some (lit ''10''), Some (lit ''12'')]"
  by (simp add: model_eval pd_example_def fmt_eval)

lemma example_headers:
  "first_index (header_labels (PolarsSource pl_example)) ''score'' = Some 1"
  "first_index (header_labels (PolarsSource pl_example)) ''missing'' = None"
  "first_index (header_labels (PandasSource pd_example)) ''score'' = Some 1"
  "first_index (header_labels (PandasSource pd_example)) ''missing'' = None"
  by (simp_all add: header_labels_def pl_example_def pd_example_def)

lemma examples_rectangular:
  "rectangular (PolarsSource pl_example)" "rectangular (PandasSource pd_example)"
  by (simp_all add: rectangular_def pl_example_def pd_example_def
      PolarsTableModel_rowCount_def PandasTableModel_rowCount_def)

lemma example_row_counts:
  "PolarsTableModel_rowCount pl_example = 5" "PandasTableModel_rowCount pd_example = 5"
  by (simp_all add: pl_example_def pd_example_def PolarsTableModel_rowCount_def
      PandasTableModel_rowCount_def)

lemma upt_5: "[0 ..< 5] = [0, 1, 2, 3, 4]"
  by (simp add: upt_conv_Cons)

theorem filter_accepts_iff_all_predicates_witness:
  "sourceModel pl_proxy = Some (PolarsSource pl_example)
   \<and> rectangular (PolarsSource pl_example)
   \<and> map (filterAcceptsRow unicode_fragment pl_proxy) [0, 1, 2, 3, 4]
       = [Inr False, Inr True, Inr True, Inr True, Inr False]
   \<and> sourceModel pd_proxy = Some (PandasSource pd_example)
   \<and> rectangular (PandasSource pd_example)
   \<and> map (filterAcceptsRow unicode_fragment pd_proxy) [0, 1, 2, 3, 4]
       = [Inr False, Inr True, Inr True, Inr True, Inr False]
   \<and> filters pd_proxy_unfiltered = []
   \<and> visibleRowCount unicode_fragment pd_proxy_unfiltered = 5
   \<and> sourceModel detached_proxy = None
   \<and> filterAcceptsRow unicode_fragment detached_proxy 7 = Inr True"
proof -
  have pl: "filterAcceptsRow unicode_fragment pl_proxy r = Inr (list_all (satisfies unicode_fragment (PolarsSource pl_example) r) score_5_10)" for r
    using filter_accepts_iff_all_predicates [of pl_proxy "PolarsSource pl_example" unicode_fragment r]
    by (simp add: pl_proxy_def examples_rectangular)
  have pd: "filterAcceptsRow unicode_fragment pd_proxy r = Inr (list_all (satisfies unicode_fragment (PandasSource pd_example) r) score_5_10)" for r
    using filter_accepts_iff_all_predicates [of pd_proxy "PandasSource pd_example" unicode_fragment r]
    by (simp add: pd_proxy_def examples_rectangular)
  have un: "visibleRowCount unicode_fragment pd_proxy_unfiltered = 5"
    using filter_accepts_iff_all_predicates [of pd_proxy_unfiltered "PandasSource pd_example" unicode_fragment 0]
    by (simp add: pd_proxy_unfiltered_def pd_proxy_def set_filters_def examples_rectangular
        example_row_counts)
  have de: "filterAcceptsRow unicode_fragment detached_proxy 7 = Inr True"
    using filter_accepts_iff_all_predicates [of detached_proxy m unicode_fragment 7 for m]
    by (simp add: detached_proxy_def)
  have src: "sourceModel pl_proxy = Some (PolarsSource pl_example)"
    "sourceModel pd_proxy = Some (PandasSource pd_example)"
    "filters pd_proxy_unfiltered = []" "sourceModel detached_proxy = None"
    by (simp_all add: pl_proxy_def pd_proxy_def pd_proxy_unfiltered_def set_filters_def
        detached_proxy_def)
  show ?thesis
    using pl_example_score [of unicode_fragment] pd_example_score [of unicode_fragment]
    by (simp add: pl pd un de src satisfies_def example_headers score_5_10_def
        range_5_10_examples examples_rectangular)
qed

section \<open>The two backends side by side\<close>

lemma display_agrees:
  assumes "r < length (series_values s)" and "same_datum v (series_values s ! r)"
  shows "pl_display rt (series_dtype s) (series_values s ! r) = Inr (pd_display rt v)"
proof -
  note eval = pl_display_def pd_display_def py_value_def
  show ?thesis
  proof (cases s)
    case (IntSeries t xs)
    with assms show ?thesis
      by (cases "xs ! r") (auto simp: eval elim!: same_datum.elims)
  next
    case (FloatSeries t xs)
    with assms show ?thesis
      by (cases "xs ! r") (auto simp: eval elim!: same_datum.elims)
  next
    case (BooleanSeries xs)
    with assms show ?thesis
      by (cases "xs ! r") (auto simp: eval elim!: same_datum.elims)
  next
    case (Utf8Series xs)
    with assms show ?thesis
      by (cases "xs ! r") (auto simp: eval elim!: same_datum.elims)
  next
    case (DateSeries xs)
    with assms show ?thesis
      by (cases "xs ! r") (auto simp: eval elim!: same_datum.elims)
  next
    case (DatetimeSeries xs)
    with assms show ?thesis
      by (cases "xs ! r") (auto simp: eval elim!: same_datum.elims)
  qed
qed

text \<open>
  C1 on the generated test data, whose \<open>active\<close> column (column 2) holds booleans. Both
  models display its cells with the same strings, but \<open>get_column_dtype\<close> gives \<open>bool\<close>
  in the pandas model and \<open>object\<close> in the polars model, whose search of the dtype's
  name has no case for \<open>Boolean\<close>; the filter dialog then offers a boolean filter for
  the one and a text filter for the other. On the text, integer and float columns the
  two models agree.
\<close>

theorem boolean_column_type_tag_differs:
  "map (\<lambda>r. cellValue rt (PandasSource pd_example) r 2) [0, 1, 2, 3, 4]
     = map (\<lambda>r. cellValue rt (PolarsSource pl_example) r 2) [0, 1, 2, 3, 4]
   \<and> map (\<lambda>r. cellValue rt (PolarsSource pl_example) r 2) [0, 1, 2, 3, 4]
     = [Some (lit ''True''), Some (lit ''False''), Some (lit ''True''), Some (lit ''False''), Some (lit ''True'')]
   \<and> PandasTableModel_get_column_dtype pd_example 2 = ''bool''
   \<and> PolarsTableModel_get_column_dtype pl_example 2 = ''object''
   \<and> FilterDialog_widget_type (PandasTableModel_get_column_dtype pd_example 2) = Some ''bool''
   \<and> FilterDialog_widget_type (PolarsTableModel_get_column_dtype pl_example 2) = Some ''text''
   \<and> map (PandasTableModel_get_column_dtype pd_example) [0, 1, 3, 4]
     = map (PolarsTableModel_get_column_dtype pl_example) [0, 1, 3, 4]"
  by (simp add: model_eval pd_example_def pl_example_def
      PandasTableModel_get_column_dtype_def PolarsTableModel_get_column_dtype_def
      FilterDialog_widget_type_def)
section \<open>The background colour hint\<close>

lemmas bg_eval = gradient_def pl_background_def float_max_def float_min_def number_max_def
  non_null_def List.map_filter_def int_truediv_def py_float_div_def float_sub_def float_eq_def
  float_1e_9_def round_scaled_def

lemma float_of_int_255: "float_of_int 255 = Finite False 8972014882652160 (- 45)"
  by (simp add: fl_eval)

lemma float_of_int_2: "float_of_int 2 = Finite False 4503599627370496 (- 51)"
  by (simp add: fl_eval)

lemma float_of_int_1: "float_of_int 1 = Finite False 4503599627370496 (- 52)"
  by (simp add: fl_eval)

lemma gradient_of_zero: "gradient (Finite s 0 (- 1074)) = Inr (QColor 0 200 255)"
  by (simp add: gradient_def float_of_int_255 round_scaled_def round_ratio_def scale2_def
      signed_mantissa_def)

lemma round_ratio_one: "0 < d \<Longrightarrow> round_ratio False d d = Finite False 4503599627370496 (- 52)"
  by (simp add: round_ratio_def floor_log2_def scale2_def round_half_even_def Let_def)

lemma gradient_of_one: "gradient (Finite False 4503599627370496 (- 52)) = Inr (QColor 255 200 0)"
  by (simp add: gradient_def float_of_int_255 fl_eval round_scaled_def)

lemma int_truediv_zero: "d \<noteq> 0 \<Longrightarrow> int_truediv 0 d = Inr (Finite (d < 0) 0 (- 1074))"
  by (simp add: int_truediv_def round_ratio_def)

lemma int_truediv_self: "d \<noteq> 0 \<Longrightarrow> int_truediv d d = Inr (Finite False 4503599627370496 (- 52))"
  using round_ratio_one [of "\<bar>d\<bar>"] by (simp add: int_truediv_def)

lemma gradient_shape:
  "gradient q = Inr c \<Longrightarrow> \<exists>red. c = QColor red 200 (255 - red) \<and> red \<le> 255"
  by (auto simp: gradient_def Let_def split: sum.splits)

lemma polars_background_at:
  assumes "row < PolarsTableModel_rowCount pl" and "col < PolarsTableModel_columnCount pl"
    and "pl_cell (pl_data pl) row col = Inr cell"
  shows "PolarsTableModel_data rt pl (ModelIndex row col) BackgroundRole
           = pl_background (pl_series (pl_data pl ! col)) cell"
  using assms by (simp add: PolarsTableModel_data_def)

lemma int_series_cell:
  assumes "col < length (pl_data pl)" and "pl_series (pl_data pl ! col) = IntSeries t xs"
    and "row < length xs" and "xs ! row = Some i"
  shows "pl_cell (pl_data pl) row col = Inr (PlInt i)"
  using assms by (simp add: pl_cell_def py_value_def)

lemma float_series_cell:
  assumes "col < length (pl_data pl)" and "pl_series (pl_data pl ! col) = FloatSeries t xs"
    and "row < length xs" and "xs ! row = Some x"
  shows "pl_cell (pl_data pl) row col = Inr (PlFloat x)"
  using assms by (simp add: pl_cell_def py_value_def)

lemma float_background:
  assumes "series_min (FloatSeries t xs) = PlFloat lo"
    and "series_max (FloatSeries t xs) = PlFloat hi"
  shows "pl_background (FloatSeries t xs) (PlFloat x) =
           (if \<not> float_eq hi lo
            then (case py_float_div (float_sub x lo) (float_sub hi lo) of
                    Inl e \<Rightarrow> Inl e | Inr normalized \<Rightarrow> gradient normalized)
            else Inr QNone)"
  using assms by (simp add: pl_background_def Let_def del: series_min.simps series_max.simps)

lemma int_background:
  assumes "series_min (IntSeries t xs) = PlInt lo" and "series_max (IntSeries t xs) = PlInt hi"
  shows "pl_background (IntSeries t xs) (PlInt i) =
           (if hi \<noteq> lo
            then (case int_truediv (i - lo) (hi - lo) of
                    Inl e \<Rightarrow> Inl e | Inr normalized \<Rightarrow> gradient normalized)
            else Inr QNone)"
  using assms by (simp add: pl_background_def Let_def del: series_min.simps series_max.simps)

lemma float64_array_cell:
  assumes "col < length (pd_data pd)"
    and "pd_series (pd_data pd ! col) = FloatingArray np_float64 xs" and "row < length xs"
  shows "pd_iloc (pd_data pd) row col = Inr (NpFloating np_float64 (xs ! row))"
  using assms by (simp add: pd_iloc_def)

lemma object_array_cell:
  assumes "col < length (pd_data pd)"
    and "pd_series (pd_data pd ! col) = ObjectArray xs" and "row < length xs"
  shows "pd_iloc (pd_data pd) row col = Inr (Object (xs ! row))"
  using assms by (simp add: pd_iloc_def)

lemma object_abs_number:
  "object_abs v = Inr a \<Longrightarrow> is_python_int_or_float (Object v)"
  by (cases v) simp_all

lemma example_backgrounds:
  "PolarsTableModel_data rt pl_example (ModelIndex 2 1) BackgroundRole = Inr (QColor 113 200 142)"
  "PolarsTableModel_data rt pl_example (ModelIndex 0 3) BackgroundRole = Inr QNone"
  "PandasTableModel_data rt pd_example (ModelIndex 0 3) BackgroundRole = Inr (QColor 254 200 1)"
  by (simp_all add: model_eval bg_eval pl_example_def pd_example_def float_of_int_255
      float_of_int_2 fl_eval)

text \<open>
  C8, as stated, fails. In the column \<open>flat\<close> of the example (column 3) every cell is
  2.0, so its minimum equals its maximum: the polars model returns no colour at all, and
  the pandas model, which has no case for such a column and divides the absolute value by
  the largest absolute value of the column plus \<open>1e-9\<close>, returns the colour
  (254, 200, 1), the red end of the gradient but for one step. Neither is the midpoint
  of the gradient.
\<close>

theorem background_counterexample:
  "PolarsTableModel_data unicode_fragment pl_example (ModelIndex 0 3) BackgroundRole = Inr QNone
   \<and> PandasTableModel_data unicode_fragment pd_example (ModelIndex 0 3) BackgroundRole
       = Inr (QColor 254 200 1)"
  using example_backgrounds [of unicode_fragment] by simp

text \<open>
  C8, amended. The colour is \<open>QColor(red, 200, 255 - red)\<close> with
  \<open>red = min(255, int(255 * normalized))\<close>, between (0, 200, 255) and (255, 200, 0).
  In the polars model, for a cell that is not null in an integer column with minimum
  \<open>lo\<close> and maximum \<open>hi\<close>, \<open>normalized\<close> is \<open>(value - lo) / (hi - lo)\<close> when
  \<open>lo\<close> and \<open>hi\<close> differ, the cells equal to \<open>lo\<close> getting (0, 200, 255) and those
  equal to \<open>hi\<close> (255, 200, 0). A float column has the same formula in float
  arithmetic, and for any numeric column whose maximum equals its minimum no colour is
  returned. In the pandas model a cell that is a Python \<open>int\<close> or \<open>float\<close> and not
  NaN gets \<open>normalized = abs(value) / (m + 1e-9)\<close>, where \<open>m\<close> is the largest
  absolute value of the column, whether or not the column has a range: these are the
  cells of a \<open>float64\<close> column, and the numbers of an \<open>object\<close> column, where every
  cell must have an absolute value and an integer must fit a float. A cell that is
  missing, text, a boolean of a boolean column or a time stamp gets no colour.
\<close>

theorem background_hint:
  "(gradient q = Inr c \<longrightarrow> (\<exists>red. c = QColor red 200 (255 - red) \<and> red \<le> 255))
   \<and> (row < PolarsTableModel_rowCount pl \<and> col < PolarsTableModel_columnCount pl \<and>
      pl_series (pl_data pl ! col) = IntSeries t xs \<and> row < length xs \<and> xs ! row = Some i \<and>
      series_min (IntSeries t xs) = PlInt lo \<and> series_max (IntSeries t xs) = PlInt hi
      \<longrightarrow> PolarsTableModel_data rt pl (ModelIndex row col) BackgroundRole =
            (if hi \<noteq> lo
             then (case int_truediv (i - lo) (hi - lo) of
                     Inl e \<Rightarrow> Inl e | Inr normalized \<Rightarrow> gradient normalized)
             else Inr QNone)
          \<and> (hi \<noteq> lo \<and> i = lo \<longrightarrow>
               PolarsTableModel_data rt pl (ModelIndex row col) BackgroundRole
                 = Inr (QColor 0 200 255))
          \<and> (hi \<noteq> lo \<and> i = hi \<longrightarrow>
               PolarsTableModel_data rt pl (ModelIndex row col) BackgroundRole
                 = Inr (QColor 255 200 0)))
   \<and> (row < PolarsTableModel_rowCount pl \<and> col < PolarsTableModel_columnCount pl \<and>
      pl_series (pl_data pl ! col) = FloatSeries ft ys \<and> row < length ys \<and> ys ! row = Some y \<and>
      series_min (FloatSeries ft ys) = PlFloat flo \<and> series_max (FloatSeries ft ys) = PlFloat fhi
      \<longrightarrow> PolarsTableModel_data rt pl (ModelIndex row col) BackgroundRole =
            (if \<not> float_eq fhi flo
             then (case py_float_div (float_sub y flo) (float_sub fhi flo) of
                     Inl e \<Rightarrow> Inl e | Inr normalized \<Rightarrow> gradient normalized)
             else Inr QNone))
   \<and> (row < PolarsTableModel_rowCount pl \<and> col < PolarsTableModel_columnCount pl \<and>
      pl_cell (pl_data pl) row col = Inr cell \<and>
      \<not> pl_ne (series_max (pl_series (pl_data pl ! col)))
               (series_min (pl_series (pl_data pl ! col)))
      \<longrightarrow> PolarsTableModel_data rt pl (ModelIndex row col) BackgroundRole = Inr QNone)
   \<and> (pcol < length (pd_data pd) \<and>
      pd_series (pd_data pd ! pcol) = FloatingArray np_float64 zs \<and> prow < length zs \<and>
      zs ! prow \<noteq> NaN
      \<longrightarrow> PandasTableModel_data rt pd (ModelIndex prow pcol) BackgroundRole
            = gradient (float_div (float_abs (zs ! prow))
                                  (float_add (float_max (map float_abs zs)) float_1e_9)))
   \<and> (pcol < length (pd_data pd) \<and>
      pd_series (pd_data pd ! pcol) = ObjectArray os \<and> prow < length os \<and>
      os ! prow \<noteq> PyFloat NaN \<and> object_abs (os ! prow) = Inr a \<and> as_float a = Inr numerator \<and>
      abs_all os = Inr magnitudes \<and> as_float (number_max magnitudes) = Inr largest
      \<longrightarrow> PandasTableModel_data rt pd (ModelIndex prow pcol) BackgroundRole
            = (case py_float_div numerator (float_add largest float_1e_9) of
                 Inl e \<Rightarrow> Inl e | Inr normalized \<Rightarrow> gradient normalized))
   \<and> (pd_iloc (pd_data pd) prow pcol = Inr v \<and>
      (pd_isna v \<or> v = Object (PyStr label) \<or> v = NpBool b \<or> v = Timestamp stamp)
      \<longrightarrow> PandasTableModel_data rt pd (ModelIndex prow pcol) BackgroundRole = Inr QNone)"
proof -
  have shape: "\<exists>red. c = QColor red 200 (255 - red) \<and> red \<le> 255" if "gradient q = Inr c"
    using that by (rule gradient_shape)
  have ints: "PolarsTableModel_data rt pl (ModelIndex row col) BackgroundRole =
            (if hi \<noteq> lo
             then (case int_truediv (i - lo) (hi - lo) of
                     Inl e \<Rightarrow> Inl e | Inr normalized \<Rightarrow> gradient normalized)
             else Inr QNone)"
    if "row < PolarsTableModel_rowCount pl" and "col < PolarsTableModel_columnCount pl"
      and "pl_series (pl_data pl ! col) = IntSeries t xs" and "row < length xs"
      and "xs ! row = Some i" and "series_min (IntSeries t xs) = PlInt lo"
      and "series_max (IntSeries t xs) = PlInt hi"
  proof -
    from that have "pl_cell (pl_data pl) row col = Inr (PlInt i)"
      by (simp add: int_series_cell PolarsTableModel_columnCount_def)
    with that show ?thesis
      by (simp add: polars_background_at int_background)
  qed
  have floats: "PolarsTableModel_data rt pl (ModelIndex row col) BackgroundRole =
            (if \<not> float_eq fhi flo
             then (case py_float_div (float_sub y flo) (float_sub fhi flo) of
                     Inl e \<Rightarrow> Inl e | Inr normalized \<Rightarrow> gradient normalized)
             else Inr QNone)"
    if "row < PolarsTableModel_rowCount pl" and "col < PolarsTableModel_columnCount pl"
      and "pl_series (pl_data pl ! col) = FloatSeries ft ys" and "row < length ys"
      and "ys ! row = Some y" and "series_min (FloatSeries ft ys) = PlFloat flo"
      and "series_max (FloatSeries ft ys) = PlFloat fhi"
  proof -
    from that have "pl_cell (pl_data pl) row col = Inr (PlFloat y)"
      by (simp add: float_series_cell PolarsTableModel_columnCount_def)
    with that show ?thesis
      by (simp add: polars_background_at float_background)
  qed
  have zero_range: "PolarsTableModel_data rt pl (ModelIndex row col) BackgroundRole = Inr QNone"
    if "row < PolarsTableModel_rowCount pl" and "col < PolarsTableModel_columnCount pl"
      and "pl_cell (pl_data pl) row col = Inr cell"
      and "\<not> pl_ne (series_max (pl_series (pl_data pl ! col)))
                    (series_min (pl_series (pl_data pl ! col)))"
    using that by (simp add: polars_background_at pl_background_def Let_def)
  have pandas_float: "PandasTableModel_data rt pd (ModelIndex prow pcol) BackgroundRole
            = gradient (float_div (float_abs (zs ! prow))
                                  (float_add (float_max (map float_abs zs)) float_1e_9))"
    if "pcol < length (pd_data pd)"
      and "pd_series (pd_data pd ! pcol) = FloatingArray np_float64 zs" and "prow < length zs"
      and "zs ! prow \<noteq> NaN"
    using that float64_array_cell [of pcol pd zs prow]
    by (simp add: PandasTableModel_data_def)
  have pandas_object: "PandasTableModel_data rt pd (ModelIndex prow pcol) BackgroundRole
            = (case py_float_div numerator (float_add largest float_1e_9) of
                 Inl e \<Rightarrow> Inl e | Inr normalized \<Rightarrow> gradient normalized)"
    if "pcol < length (pd_data pd)"
      and "pd_series (pd_data pd ! pcol) = ObjectArray os" and "prow < length os"
      and "os ! prow \<noteq> PyFloat NaN" and "object_abs (os ! prow) = Inr a"
      and "as_float a = Inr numerator" and "abs_all os = Inr magnitudes"
      and "as_float (number_max magnitudes) = Inr largest"
  proof -
    have number: "is_python_int_or_float (Object (os ! prow))"
      using that(5) by (rule object_abs_number)
    have present: "\<not> pd_isna (Object (os ! prow))"
      using that(4,5) by (cases "os ! prow") simp_all
    show ?thesis
      using that number present object_array_cell [of pcol pd os prow]
      by (simp add: PandasTableModel_data_def)
  qed
  have pandas_other: "PandasTableModel_data rt pd (ModelIndex prow pcol) BackgroundRole = Inr QNone"
    if "pd_iloc (pd_data pd) prow pcol = Inr v"
      and "pd_isna v \<or> v = Object (PyStr label) \<or> v = NpBool b \<or> v = Timestamp stamp"
    using that by (auto simp: PandasTableModel_data_def)
  have part1: "gradient q = Inr c \<longrightarrow> (\<exists>red. c = QColor red 200 (255 - red) \<and> red \<le> 255)"
    using shape by blast
  have part2: "row < PolarsTableModel_rowCount pl \<and> col < PolarsTableModel_columnCount pl \<and>
      pl_series (pl_data pl ! col) = IntSeries t xs \<and> row < length xs \<and> xs ! row = Some i \<and>
      series_min (IntSeries t xs) = PlInt lo \<and> series_max (IntSeries t xs) = PlInt hi
      \<longrightarrow> PolarsTableModel_data rt pl (ModelIndex row col) BackgroundRole =
            (if hi \<noteq> lo
             then (case int_truediv (i - lo) (hi - lo) of
                     Inl e \<Rightarrow> Inl e | Inr normalized \<Rightarrow> gradient normalized)
             else Inr QNone)
          \<and> (hi \<noteq> lo \<and> i = lo \<longrightarrow>
               PolarsTableModel_data rt pl (ModelIndex row col) BackgroundRole
                 = Inr (QColor 0 200 255))
          \<and> (hi \<noteq> lo \<and> i = hi \<longrightarrow>
               PolarsTableModel_data rt pl (ModelIndex row col) BackgroundRole
                 = Inr (QColor 255 200 0))"
    using ints
    by (auto simp: int_truediv_zero int_truediv_self gradient_of_zero gradient_of_one)
  have part3: "row < PolarsTableModel_rowCount pl \<and> col < PolarsTableModel_columnCount pl \<and>
      pl_series (pl_data pl ! col) = FloatSeries ft ys \<and> row < length ys \<and> ys ! row = Some y \<and>
      series_min (FloatSeries ft ys) = PlFloat flo \<and> series_max (FloatSeries ft ys) = PlFloat fhi
      \<longrightarrow> PolarsTableModel_data rt pl (ModelIndex row col) BackgroundRole =
            (if \<not> float_eq fhi flo
             then (case py_float_div (float_sub y flo) (float_sub fhi flo) of
                     Inl e \<Rightarrow> Inl e | Inr normalized \<Rightarrow> gradient normalized)
             else Inr QNone)"
    using floats by blast
  have part4: "row < PolarsTableModel_rowCount pl \<and> col < PolarsTableModel_columnCount pl \<and>
      pl_cell (pl_data pl) row col = Inr cell \<and>
      \<not> pl_ne (series_max (pl_series (pl_data pl ! col)))
               (series_min (pl_series (pl_data pl ! col)))
      \<longrightarrow> PolarsTableModel_data rt pl (ModelIndex row col) BackgroundRole = Inr QNone"
    using zero_range by blast
  have part5: "pcol < length (pd_data pd) \<and>
      pd_series (pd_data pd ! pcol) = FloatingArray np_float64 zs \<and> prow < length zs \<and>
      zs ! prow \<noteq> NaN
      \<longrightarrow> PandasTableModel_data rt pd (ModelIndex prow pcol) BackgroundRole
            = gradient (float_div (float_abs (zs ! prow))
                                  (float_add (float_max (map float_abs zs)) float_1e_9))"
    using pandas_float by blast
  have part6: "pcol < length (pd_data pd) \<and>
      pd_series (pd_data pd ! pcol) = ObjectArray os \<and> prow < length os \<and>
      os ! prow \<noteq> PyFloat NaN \<and> object_abs (os ! prow) = Inr a \<and> as_float a = Inr numerator \<and>
      abs_all os = Inr magnitudes \<and> as_float (number_max magnitudes) = Inr largest
      \<longrightarrow> PandasTableModel_data rt pd (ModelIndex prow pcol) BackgroundRole
            = (case py_float_div numerator (float_add largest float_1e_9) of
                 Inl e \<Rightarrow> Inl e | Inr normalized \<Rightarrow> gradient normalized)"
    using pandas_object by blast
  have part7: "pd_iloc (pd_data pd) prow pcol = Inr v \<and>
      (pd_isna v \<or> v = Object (PyStr label) \<or> v = NpBool b \<or> v = Timestamp stamp)
      \<longrightarrow> PandasTableModel_data rt pd (ModelIndex prow pcol) BackgroundRole = Inr QNone"
    using pandas_other by blast
  show ?thesis
    by (intro conjI) (fact part1 part2 part3 part4 part5 part6 part7)+
qed


theorem background_hint_witness:
  "gradient (Finite False 8006399337547548 (- 54)) = Inr (QColor 113 200 142)
   \<and> map (\<lambda>r. PolarsTableModel_data unicode_fragment pl_example (ModelIndex r 1) BackgroundRole)
          [0, 2, 4]
       = [Inr (QColor 0 200 255), Inr (QColor 113 200 142), Inr (QColor 255 200 0)]
   \<and> PolarsTableModel_data unicode_fragment pl_example (ModelIndex 1 4) BackgroundRole
       = Inr (QColor 255 200 0)
   \<and> PolarsTableModel_data unicode_fragment pl_example (ModelIndex 0 3) BackgroundRole = Inr QNone
   \<and> PandasTableModel_data unicode_fragment pd_example (ModelIndex 0 3) BackgroundRole
       = gradient (float_div (float_of_int 2) (float_add (float_of_int 2) float_1e_9))
   \<and> gradient (float_div (float_of_int 2) (float_add (float_of_int 2) float_1e_9))
       = Inr (QColor 254 200 1)
   \<and> map (\<lambda>r. PandasTableModel_data unicode_fragment pd_objects (ModelIndex r 0) BackgroundRole)
          [0, 2, 3]
       = [Inr (QColor 254 200 1), Inr (QColor 127 200 128), Inr QNone]
   \<and> map (\<lambda>c. PandasTableModel_data unicode_fragment pd_example (ModelIndex 0 c) BackgroundRole)
          [0, 2]
       = [Inr QNone, Inr QNone]"
proof -
  have polars: "pl_series (pl_data pl_example ! Suc 0)
        = IntSeries Int64 [Some 3, Some 5, Some 7, Some 10, Some 12]"
    "PolarsTableModel_rowCount pl_example = 5" "PolarsTableModel_columnCount pl_example = 5"
    "pl_cell (pl_data pl_example) 0 3 = Inr (PlFloat (float_of_int 2))"
    "\<not> pl_ne (series_max (pl_series (pl_data pl_example ! 3)))
             (series_min (pl_series (pl_data pl_example ! 3)))"
    by (simp_all add: pl_example_def PolarsTableModel_rowCount_def
        PolarsTableModel_columnCount_def pl_cell_def py_value_def bg_eval
        float_of_int_2 scale2_def signed_mantissa_def)
  have pandas: "length (pd_data pd_example) = 5"
    "pd_series (pd_data pd_example ! 3)
       = FloatingArray np_float64 [float_of_int 2, float_of_int 2, float_of_int 2,
                                   float_of_int 2, float_of_int 2]"
    "float_max [float_of_int 2, float_of_int 2, float_of_int 2, float_of_int 2,
                float_of_int 2] = float_of_int 2"
    "float_abs (float_of_int 2) = float_of_int 2" "float_of_int 2 \<noteq> NaN"
    "pd_iloc (pd_data pd_example) 0 0 = Inr (Object (PyStr (lit ''North'')))"
    "pd_iloc (pd_data pd_example) 0 2 = Inr (NpBool True)"
    by (simp_all add: pd_example_def pd_iloc_def float_max_def float_of_int_2 scale2_def
        signed_mantissa_def)
  have objects: "length (pd_data pd_objects) = 1"
    "pd_series (pd_data pd_objects ! 0)
       = ObjectArray [PyInt 2, PyFloat (float_of_int 2), PyBool True, PyFloat NaN]"
    "abs_all [PyInt 2, PyFloat (float_of_int 2), PyBool True, PyFloat NaN]
       = Inr [IntNumber 2, FloatNumber (float_of_int 2), IntNumber 1, FloatNumber NaN]"
    "number_max [IntNumber 2, FloatNumber (float_of_int 2), IntNumber 1, FloatNumber NaN]
       = FloatNumber (float_of_int 2)"
    "as_float (IntNumber 2) = Inr (float_of_int 2)"
    "as_float (IntNumber 1) = Inr (float_of_int 1)"
    "pd_iloc (pd_data pd_objects) 3 0 = Inr (Object (PyFloat NaN))"
    by (simp_all add: pd_objects_def pd_iloc_def number_max_def float_of_int_2 float_of_int_1
        scale2_def signed_mantissa_def)
  note eval = non_null_def List.map_filter_def int_truediv_zero int_truediv_self
    gradient_of_zero gradient_of_one float_of_int_2
  have third: "int_truediv 4 9 = Inr (Finite False 8006399337547548 (- 54))"
    by (simp add: int_truediv_def fl_eval)
  have colours: "gradient (Finite False 8006399337547548 (- 54)) = Inr (QColor 113 200 142)"
    "gradient (float_div (float_of_int 2) (float_add (float_of_int 2) float_1e_9))
       = Inr (QColor 254 200 1)"
    "py_float_div (float_of_int 2) (float_add (float_of_int 2) float_1e_9)
       = Inr (float_div (float_of_int 2) (float_add (float_of_int 2) float_1e_9))"
    "(case py_float_div (float_of_int 1) (float_add (float_of_int 2) float_1e_9) of
        Inl e \<Rightarrow> Inl e | Inr normalized \<Rightarrow> gradient normalized) = Inr (QColor 127 200 128)"
    by (simp_all add: gradient_def float_of_int_255 float_of_int_2 float_of_int_1 bg_eval fl_eval)
  have lowest: "PolarsTableModel_data unicode_fragment pl_example (ModelIndex 0 1) BackgroundRole
      = Inr (QColor 0 200 255)"
    using background_hint [where pl = pl_example and rt = unicode_fragment and row = 0
        and col = 1 and t = Int64 and xs = "[Some 3, Some 5, Some 7, Some 10, Some 12]"
        and i = 3 and lo = 3 and hi = 12]
    by (simp add: polars eval)
  have middle: "PolarsTableModel_data unicode_fragment pl_example (ModelIndex 2 1) BackgroundRole
      = Inr (QColor 113 200 142)"
    using background_hint [where pl = pl_example and rt = unicode_fragment and row = 2
        and col = 1 and t = Int64 and xs = "[Some 3, Some 5, Some 7, Some 10, Some 12]"
        and i = 7 and lo = 3 and hi = 12]
    by (simp add: polars eval third colours)
  have highest: "PolarsTableModel_data unicode_fragment pl_example (ModelIndex 4 1) BackgroundRole
      = Inr (QColor 255 200 0)"
    using background_hint [where pl = pl_example and rt = unicode_fragment and row = 4
        and col = 1 and t = Int64 and xs = "[Some 3, Some 5, Some 7, Some 10, Some 12]"
        and i = 12 and lo = 3 and hi = 12]
    by (simp add: polars eval)
  have flat: "PolarsTableModel_data unicode_fragment pl_example (ModelIndex 0 3) BackgroundRole
      = Inr QNone"
    using background_hint [where pl = pl_example and rt = unicode_fragment and row = 0
        and col = 3 and cell = "PlFloat (float_of_int 2)"]
    by (simp add: polars)
  have sales: "pl_series (pl_data pl_example ! 4)
        = FloatSeries Float64 [Some (Finite False 4503599627370496 (- 53)),
            Some (Finite False 5429388417957888 (- 42)), Some (float_of_int 2),
            Some (float_of_int 2), Some (Finite False 5629499534213120 (- 51))]"
    by (simp add: pl_example_def fl_eval)
  have sales_range:
    "float_sub (Finite False 5429388417957888 (- 42)) (Finite False 4503599627370496 (- 53))
       = Finite False 5427189394702336 (- 42)"
    "py_float_div (Finite False 5427189394702336 (- 42)) (Finite False 5427189394702336 (- 42))
       = Inr (Finite False 4503599627370496 (- 52))"
    by (simp_all add: float_sub_def py_float_div_def round_scaled_def fl_eval)
  have sales_max: "PolarsTableModel_data unicode_fragment pl_example (ModelIndex 1 4) BackgroundRole
      = Inr (QColor 255 200 0)"
    using background_hint [where pl = pl_example and rt = unicode_fragment and row = 1
        and col = 4 and ft = Float64
        and ys = "[Some (Finite False 4503599627370496 (- 53)),
          Some (Finite False 5429388417957888 (- 42)), Some (float_of_int 2),
          Some (float_of_int 2), Some (Finite False 5629499534213120 (- 51))]"
        and y = "Finite False 5429388417957888 (- 42)"
        and flo = "Finite False 4503599627370496 (- 53)"
        and fhi = "Finite False 5429388417957888 (- 42)"]
    by (simp add: polars sales sales_range non_null_def List.map_filter_def float_min_def
        float_max_def float_eq_def float_of_int_2 scale2_def signed_mantissa_def
        gradient_of_one)
  have pandas_flat: "PandasTableModel_data unicode_fragment pd_example (ModelIndex 0 3) BackgroundRole
      = gradient (float_div (float_of_int 2) (float_add (float_of_int 2) float_1e_9))"
    using background_hint [where pd = pd_example and rt = unicode_fragment and prow = 0
        and pcol = 3
        and zs = "[float_of_int 2, float_of_int 2, float_of_int 2, float_of_int 2,
                   float_of_int 2]"]
    by (simp add: pandas)
  have object_int: "PandasTableModel_data unicode_fragment pd_objects (ModelIndex 0 0) BackgroundRole
      = Inr (QColor 254 200 1)"
    using background_hint [where pd = pd_objects and rt = unicode_fragment and prow = 0
        and pcol = 0
        and os = "[PyInt 2, PyFloat (float_of_int 2), PyBool True, PyFloat NaN]"
        and a = "IntNumber 2" and numerator = "float_of_int 2"
        and magnitudes = "[IntNumber 2, FloatNumber (float_of_int 2), IntNumber 1,
                           FloatNumber NaN]"
        and largest = "float_of_int 2"]
    by (simp add: objects pandas(4) colours del: as_float.simps(2))
  have object_bool: "PandasTableModel_data unicode_fragment pd_objects (ModelIndex 2 0) BackgroundRole
      = Inr (QColor 127 200 128)"
    using background_hint [where pd = pd_objects and rt = unicode_fragment and prow = 2
        and pcol = 0
        and os = "[PyInt 2, PyFloat (float_of_int 2), PyBool True, PyFloat NaN]"
        and a = "IntNumber 1" and numerator = "float_of_int 1"
        and magnitudes = "[IntNumber 2, FloatNumber (float_of_int 2), IntNumber 1,
                           FloatNumber NaN]"
        and largest = "float_of_int 2"]
    by (simp add: objects pandas(4) colours del: as_float.simps(2))
  have object_nan: "PandasTableModel_data unicode_fragment pd_objects (ModelIndex 3 0) BackgroundRole
      = Inr QNone"
    using background_hint [where pd = pd_objects and rt = unicode_fragment and prow = 3
        and pcol = 0 and v = "Object (PyFloat NaN)"]
    by (simp add: objects)
  have text_cell: "PandasTableModel_data unicode_fragment pd_example (ModelIndex 0 0) BackgroundRole
      = Inr QNone"
    using background_hint [where pd = pd_example and rt = unicode_fragment and prow = 0
        and pcol = 0 and v = "Object (PyStr (lit ''North''))" and label = "lit ''North''"]
    by (simp add: pandas)
  have bool_cell: "PandasTableModel_data unicode_fragment pd_example (ModelIndex 0 2) BackgroundRole
      = Inr QNone"
    using background_hint [where pd = pd_example and rt = unicode_fragment and prow = 0
        and pcol = 2 and v = "NpBool True" and b = True]
    by (simp add: pandas)
  show ?thesis
    using lowest middle highest flat sales_max pandas_flat object_int object_bool object_nan
      text_cell bool_cell colours
    by simp
qed


section \<open>Sorting: failures and notifications\<close>

lemmas sort_eval = PandasTableModel_sort_def PolarsTableModel_sort_def pd_emit_def pl_emit_def
  pd_call_sort_values_def pl_call_sort_def Let_def

text \<open>
  C6. When the library's reorder raises inside \<open>sort\<close>, the exception is caught: the
  method returns normally and the frame (row order and contents) is the one before the
  call. This holds for the pandas model and for the polars model.
\<close>

theorem sort_failure_is_caught:
  assumes "py_index (map pd_name (pd_data pm)) column = Inr pd_label"
    and "sort_values (pd_data pm) pd_label (order = AscendingOrder) = Inl e"
    and "py_index (map pl_name (pl_data lm)) column' = Inr pl_label"
    and "pl_sort (pl_data lm) pl_label (order' = DescendingOrder) = Inl e'"
  shows "fst (PandasTableModel_sort sort_values pm column order) = Inr ()
       \<and> pd_data (snd (PandasTableModel_sort sort_values pm column order)) = pd_data pm
       \<and> fst (PolarsTableModel_sort pl_sort lm column' order') = Inr ()
       \<and> pl_data (snd (PolarsTableModel_sort pl_sort lm column' order')) = pl_data lm"
  using assms by (simp add: sort_eval)

theorem sort_failure_is_caught_witness:
  "fst (PandasTableModel_sort raising_reorder pd_mixed 0 AscendingOrder) = Inr ()
   \<and> pd_data (snd (PandasTableModel_sort raising_reorder pd_mixed 0 AscendingOrder))
       = pd_data pd_mixed
   \<and> fst (PolarsTableModel_sort raising_reorder pl_two_rows 0 DescendingOrder) = Inr ()
   \<and> pl_data (snd (PolarsTableModel_sort raising_reorder pl_two_rows 0 DescendingOrder))
       = pl_data pl_two_rows"
  by (rule sort_failure_is_caught [where pd_label = "''k''" and pl_label = "''k''"
        and e = TypeError and e' = TypeError])
     (simp_all add: py_index_def raising_reorder_def pd_mixed_def pl_two_rows_def)

text \<open>
  C9, as stated, fails: the column label is read between the two notifications and outside
  the \<open>try\<close>. On a model built without data, which has no columns, \<open>sort(0, ...)\<close>
  emits \<open>layoutAboutToBeChanged\<close>, then \<open>columns[0]\<close> raises \<open>IndexError\<close>, which
  leaves the method: the reorder is not attempted and \<open>layoutChanged\<close> is never
  emitted. The same happens on a frame with one column and \<open>sort(5, ...)\<close>.
\<close>

theorem sort_notifications_counterexample:
  "PandasTableModel_sort pd_reversing_reorder pd_empty 0 AscendingOrder
     = (Inl IndexError, pd_empty\<lparr>pd_trace := [Emitted LayoutAboutToBeChanged []]\<rparr>)
   \<and> PolarsTableModel_sort pl_reversing_reorder pl_empty 0 AscendingOrder
     = (Inl IndexError, pl_empty\<lparr>pl_trace := [Emitted LayoutAboutToBeChanged []]\<rparr>)
   \<and> PandasTableModel_sort pd_reversing_reorder pd_mixed 5 AscendingOrder
     = (Inl IndexError,
        pd_mixed\<lparr>pd_trace := [Emitted LayoutAboutToBeChanged (pd_data pd_mixed)]\<rparr>)
   \<and> PolarsTableModel_sort pl_reversing_reorder pl_two_rows 5 AscendingOrder
     = (Inl IndexError,
        pl_two_rows\<lparr>pl_trace := [Emitted LayoutAboutToBeChanged (pl_data pl_two_rows)]\<rparr>)"
  by (simp add: sort_eval py_index_def pd_mixed_def pl_two_rows_def pd_empty_def pl_empty_def)

text \<open>
  C9, amended. For a column index that names a column of the frame, \<open>sort\<close> returns
  normally, and what it has done is, in this order: it emitted \<open>layoutAboutToBeChanged\<close>
  while its frame was still the one before the call, it called the library's reorder on
  the column of that frame, and it emitted \<open>layoutChanged\<close> with the frame the call
  leaves: the reordered frame when the reorder returned one, the frame as it was when the
  reorder raised. This holds for both models.
\<close>

theorem sort_notifications_bracket:
  assumes "py_index (map pd_name (pd_data pm)) column = Inr pd_label"
    and "py_index (map pl_name (pl_data lm)) column' = Inr pl_label"
  shows "fst (PandasTableModel_sort sort_values pm column order) = Inr ()
       \<and> pd_data (snd (PandasTableModel_sort sort_values pm column order))
           = (case sort_values (pd_data pm) pd_label (order = AscendingOrder) of
                Inr sorted_frame \<Rightarrow> sorted_frame | Inl e \<Rightarrow> pd_data pm)
       \<and> pd_trace (snd (PandasTableModel_sort sort_values pm column order))
           = pd_trace pm @
             [Emitted LayoutAboutToBeChanged (pd_data pm),
              Reorder_called pd_label (order = AscendingOrder),
              Emitted LayoutChanged
                (pd_data (snd (PandasTableModel_sort sort_values pm column order)))]
       \<and> fst (PolarsTableModel_sort pl_sort lm column' order') = Inr ()
       \<and> pl_data (snd (PolarsTableModel_sort pl_sort lm column' order'))
           = (case pl_sort (pl_data lm) pl_label (order' = DescendingOrder) of
                Inr sorted_frame \<Rightarrow> sorted_frame | Inl e \<Rightarrow> pl_data lm)
       \<and> pl_trace (snd (PolarsTableModel_sort pl_sort lm column' order'))
           = pl_trace lm @
             [Emitted LayoutAboutToBeChanged (pl_data lm),
              Reorder_called pl_label (order' = DescendingOrder),
              Emitted LayoutChanged
                (pl_data (snd (PolarsTableModel_sort pl_sort lm column' order')))]"
  using assms
  by (simp add: sort_eval split: sum.splits)

theorem sort_notifications_bracket_witness:
  "fst (PandasTableModel_sort raising_reorder pd_mixed 0 AscendingOrder) = Inr ()
   \<and> pd_data (snd (PandasTableModel_sort raising_reorder pd_mixed 0 AscendingOrder))
       = pd_data pd_mixed
   \<and> pd_trace (snd (PandasTableModel_sort raising_reorder pd_mixed 0 AscendingOrder))
       = [Emitted LayoutAboutToBeChanged (pd_data pd_mixed), Reorder_called ''k'' True,
          Emitted LayoutChanged (pd_data pd_mixed)]
   \<and> fst (PolarsTableModel_sort pl_reversing_reorder pl_two_rows (- 1) DescendingOrder) = Inr ()
   \<and> pl_data (snd (PolarsTableModel_sort pl_reversing_reorder pl_two_rows (- 1) DescendingOrder))
       = [\<lparr>pl_name = ''k'', pl_series = IntSeries Int64 [Some 1, Some 2]\<rparr>]
   \<and> pl_trace (snd (PolarsTableModel_sort pl_reversing_reorder pl_two_rows (- 1) DescendingOrder))
       = [Emitted LayoutAboutToBeChanged
            [\<lparr>pl_name = ''k'', pl_series = IntSeries Int64 [Some 2, Some 1]\<rparr>],
          Reorder_called ''k'' True,
          Emitted LayoutChanged
            [\<lparr>pl_name = ''k'', pl_series = IntSeries Int64 [Some 1, Some 2]\<rparr>]]"
  using sort_notifications_bracket [of pd_mixed 0 "''k''" pl_two_rows "- 1" "''k''"
      raising_reorder AscendingOrder pl_reversing_reorder DescendingOrder]
  by (simp add: py_index_def pd_mixed_def pl_two_rows_def raising_reorder_def
      pl_reversing_reorder_def)


end
